theory Spec2Isabelle
  imports Main "HOL-Library.Word" "HOL-Library.Sublist"
begin

unbundle bit_operations_syntax

section \<open>Denkovi relay boards: the codecs and the backends they drive\<close>

text \<open>
  The development follows the Python package \<open>denkovi_relayboard\<close>.  A board object
  (\<open>implements/denkovi_16ch.py\<close>, \<open>denkovi_8ch.py\<close>, \<open>denkovi_4ch.py\<close>) owns one backend
  and talks to it only through the methods of \<open>IBackend\<close>; a backend
  (\<open>backends/*.py\<close>) talks to a native library.  Both boundaries are made explicit:
  every call that crosses one is appended to a log, and what the other side answers is
  read from a function of the log so far, so a theorem that quantifies over that function
  holds for every device and every driver.

  Python integers are \<open>int\<close>, \<open>bytes\<close> are lists of 8-bit words, \<open>str\<close> is \<open>string\<close>,
  \<open>Optional[str]\<close> is \<open>string option\<close>, and every \<open>raise\<close> is an \<open>Inl\<close>.
\<close>

subsection \<open>Exceptions\<close>

type_synonym byte = "8 word"

datatype error =
    BackendNotOpen
    \<comment> \<open>\<open>RuntimeError("Backend is not open")\<close>, raised by a board whose \<open>self.backend\<close> is \<open>None\<close>\<close>
  | StateOverflow int
    \<comment> \<open>\<open>DenkoviRelayBoardStateOverflowException(max_channel)\<close>\<close>
  | InvalidResponseLength nat
    \<comment> \<open>\<open>RuntimeError("Invalid response length: expected 2 bytes, got n bytes")\<close>\<close>
  | StatesLengthError
    \<comment> \<open>\<open>ValueError("The length of states must be 16.")\<close>\<close>
  | IndexError
    \<comment> \<open>a list, tuple or bytes index out of range\<close>
  | NegativeShiftCount
    \<comment> \<open>\<open>ValueError("negative shift count")\<close> of \<open>1 << n\<close> with \<open>n < 0\<close>\<close>
  | ByteRangeError
    \<comment> \<open>\<open>ValueError\<close> of \<open>bytes([x])\<close> or \<open>bytearray\<close> assignment with \<open>x\<close> outside \<open>range(256)\<close>\<close>
  | AssertionError
  | EitherAddressOrSerial
    \<comment> \<open>\<open>ValueError("Either device_address or serial_number must be provided ...")\<close>\<close>
  | NoDeviceFound
    \<comment> \<open>the \<open>ValueError\<close>s of \<open>open\<close> that report a failed address or serial number lookup\<close>
  | FailedToOpen
    \<comment> \<open>\<open>RuntimeError("Failed to open ...")\<close>\<close>
  | DeviceNotOpen
    \<comment> \<open>\<open>RuntimeError("Device is not open")\<close> of the VCP and MCP2200 backends\<close>
  | FTD2XXDeviceNotOpened
    \<comment> \<open>\<open>FTD2XXDeviceNotOpenException()\<close>\<close>
  | FTD2XXStatus nat
    \<comment> \<open>what \<open>raise_for_status\<close> raises for a native status code other than \<open>FT_OK\<close>\<close>
  | NativeError string
    \<comment> \<open>any exception raised inside a native library or by the device\<close>

subsection \<open>Sequencing\<close>

text \<open>
  An exception ends the computation it is raised in: \<open>bnd\<close> sequences two steps that
  can raise, \<open>sbnd\<close> does the same for steps that also change the state.
\<close>

definition bnd :: "error + 'a \<Rightarrow> ('a \<Rightarrow> error + 'b) \<Rightarrow> error + 'b" where
  "bnd m f = (case m of Inl e \<Rightarrow> Inl e | Inr x \<Rightarrow> f x)"

definition sbnd ::
  "(error + 'a) \<times> 's \<Rightarrow> ('a \<Rightarrow> 's \<Rightarrow> (error + 'b) \<times> 's) \<Rightarrow> (error + 'b) \<times> 's" where
  "sbnd r f = (case fst r of Inl e \<Rightarrow> (Inl e, snd r) | Inr x \<Rightarrow> f x (snd r))"

subsection \<open>Python list and integer primitives\<close>

definition py_index :: "nat \<Rightarrow> int \<Rightarrow> error + nat" where
  \<comment> \<open>the position an index \<open>i\<close> names in a sequence of \<open>len\<close> elements: an index
      from \<open>-len\<close> to \<open>-1\<close> counts from the end, one outside \<open>-len .. len - 1\<close> raises\<close>
  "py_index len i =
     (if 0 \<le> i \<and> i < int len then Inr (nat i)
      else if - int len \<le> i \<and> i < 0 then Inr (nat (int len + i))
      else Inl IndexError)"

definition py_getitem :: "'a list \<Rightarrow> int \<Rightarrow> error + 'a" where
  \<comment> \<open>\<open>xs[i]\<close>\<close>
  "py_getitem xs i = bnd (py_index (length xs) i) (\<lambda>j. Inr (xs ! j))"

definition py_setitem :: "'a list \<Rightarrow> int \<Rightarrow> 'a \<Rightarrow> error + 'a list" where
  \<comment> \<open>\<open>xs[i] = v\<close>\<close>
  "py_setitem xs i v = bnd (py_index (length xs) i) (\<lambda>j. Inr (xs[j := v]))"

definition py_lshift1 :: "int \<Rightarrow> error + int" where
  \<comment> \<open>\<open>1 << n\<close>\<close>
  "py_lshift1 n = (if n < 0 then Inl NegativeShiftCount else Inr (push_bit (nat n) 1))"

definition py_byte :: "int \<Rightarrow> error + byte" where
  \<comment> \<open>one element of \<open>bytes([...])\<close>, or the value stored into a \<open>bytearray\<close>\<close>
  "py_byte x = (if 0 \<le> x \<and> x < 256 then Inr (word_of_int x) else Inl ByteRangeError)"

fun assign_each :: "bool list \<Rightarrow> int list \<Rightarrow> bool \<Rightarrow> error + bool list" where
  \<comment> \<open>\<open>for itr in addr_: target_states[itr - 1] = logic\<close>\<close>
  "assign_each ts [] v = Inr ts"
| "assign_each ts (itr # rest) v =
     (case py_setitem ts (itr - 1) v of
        Inl e \<Rightarrow> Inl e
      | Inr ts' \<Rightarrow> assign_each ts' rest v)"

fun sum_bits :: "bool list \<Rightarrow> (nat \<Rightarrow> int) \<Rightarrow> nat list \<Rightarrow> error + int" where
  \<comment> \<open>\<open>sum(1 << i for i in range(..) if states[idx(i)])\<close>, the range given as a list\<close>
  "sum_bits states idx [] = Inr 0"
| "sum_bits states idx (i # rest) =
     (case py_getitem states (idx i) of
        Inl e \<Rightarrow> Inl e
      | Inr b \<Rightarrow>
          (case sum_bits states idx rest of
             Inl e \<Rightarrow> Inl e
           | Inr v \<Rightarrow> Inr ((if b then push_bit i 1 else 0) + v)))"

definition ascii :: "string \<Rightarrow> byte list" where
  \<comment> \<open>a bytes literal \<open>b"..."\<close>\<close>
  "ascii s = map (\<lambda>c. of_nat (of_char c)) s"

subsection \<open>The backend as a board sees it\<close>

datatype call =
    Open "string option" "string option" int
  | Close
  | Write "byte list"
  | Read "nat option"
  | SetBitMode int int
  | GetBitMode
  | GetSerialNumber

text \<open>
  What the backend answers to a call, as a function of all calls made so far (the call
  being answered is the last one of the list): an exception or, for \<open>read\<close> and
  \<open>get_bit_mode\<close>, a value.
\<close>

record backend =
  b_open :: "call list \<Rightarrow> error option"
  b_close :: "call list \<Rightarrow> error option"
  b_write :: "call list \<Rightarrow> error option"
  b_read :: "call list \<Rightarrow> error + byte list"
  b_set_bit_mode :: "call list \<Rightarrow> error option"
  b_get_bit_mode :: "call list \<Rightarrow> error + int"
  b_get_serial_number :: "call list \<Rightarrow> error + string"

text \<open>
  The state of a board object: whether \<open>self.backend\<close> is set (it is \<open>None\<close> after
  \<open>close\<close>), and the calls it has made to its backend, oldest first.
\<close>

record board =
  has_backend :: bool
  io :: "call list"

definition backend_do :: "(call list \<Rightarrow> error option) \<Rightarrow> call \<Rightarrow> board \<Rightarrow> (error + unit) \<times> board" where
  "backend_do answer c s =
     (let h = io s @ [c]
      in ((case answer h of Some e \<Rightarrow> Inl e | None \<Rightarrow> Inr ()), s\<lparr>io := h\<rparr>))"

definition backend_ask :: "(call list \<Rightarrow> error + 'a) \<Rightarrow> call \<Rightarrow> board \<Rightarrow> (error + 'a) \<times> board" where
  "backend_ask answer c s = (let h = io s @ [c] in (answer h, s\<lparr>io := h\<rparr>))"

definition backend_write :: "backend \<Rightarrow> byte list \<Rightarrow> board \<Rightarrow> (error + unit) \<times> board" where
  "backend_write B d = backend_do (b_write B) (Write d)"

definition backend_read :: "backend \<Rightarrow> nat option \<Rightarrow> board \<Rightarrow> (error + byte list) \<times> board" where
  "backend_read B sz = backend_ask (b_read B) (Read sz)"

definition backend_get_bit_mode :: "backend \<Rightarrow> board \<Rightarrow> (error + int) \<times> board" where
  "backend_get_bit_mode B = backend_ask (b_get_bit_mode B) GetBitMode"

definition backend_set_bit_mode :: "backend \<Rightarrow> int \<Rightarrow> int \<Rightarrow> board \<Rightarrow> (error + unit) \<times> board" where
  "backend_set_bit_mode B msk mode = backend_do (b_set_bit_mode B) (SetBitMode msk mode)"

definition backend_open ::
  "backend \<Rightarrow> string option \<Rightarrow> string option \<Rightarrow> int \<Rightarrow> board \<Rightarrow> (error + unit) \<times> board" where
  "backend_open B device_address serial_number timeout =
     backend_do (b_open B) (Open device_address serial_number timeout)"

definition backend_close :: "backend \<Rightarrow> board \<Rightarrow> (error + unit) \<times> board" where
  "backend_close B = backend_do (b_close B) Close"

subsection \<open>\<open>DenkoviRelayBoard16Ch\<close>: ASCII commands\<close>

definition EOC_PATTERN :: "byte list" where "EOC_PATTERN = ascii ''//''"
definition ASK_COMMAND :: "byte list" where "ASK_COMMAND = ascii ''ask''"
definition POSITIVE_LOGIC_PATTERN :: "byte list" where "POSITIVE_LOGIC_PATTERN = ascii ''+''"
definition NEGATIVE_LOGIC_PATTERN :: "byte list" where "NEGATIVE_LOGIC_PATTERN = ascii ''-''"
definition ON_COMMAND :: "byte list" where "ON_COMMAND = ascii ''on''"
definition OFF_COMMAND :: "byte list" where "OFF_COMMAND = ascii ''off''"
definition MULTIPLE_COMMAND :: "byte list" where "MULTIPLE_COMMAND = ascii ''x''"

definition max_channel16 :: int where "max_channel16 = 16"

fun digits_of :: "nat \<Rightarrow> string" where
  "digits_of n =
     (if n < 10 then [char_of (48 + n)] else digits_of (n div 10) @ [char_of (48 + n mod 10)])"

declare digits_of.simps [simp del]

definition py_str :: "int \<Rightarrow> string" where
  \<comment> \<open>\<open>str(n)\<close> of an integer\<close>
  "py_str n = (if n < 0 then CHR ''-'' # digits_of (nat (- n)) else digits_of (nat n))"

definition zfill :: "nat \<Rightarrow> string \<Rightarrow> string" where
  \<comment> \<open>\<open>s.zfill(width)\<close>: zeros go after a leading sign\<close>
  "zfill width s =
     (if width \<le> length s then s
      else (case s of
              [] \<Rightarrow> replicate width (CHR ''0'')
            | c # rest \<Rightarrow>
                if c = CHR ''-'' \<or> c = CHR ''+''
                then c # replicate (width - length s) (CHR ''0'') @ rest
                else replicate (width - length s) (CHR ''0'') @ s))"

definition integrity_check16 :: "int list \<Rightarrow> error + unit" where
  "integrity_check16 states =
     (if list_ex (\<lambda>state. state < 1 \<or> state > 16) states
      then Inl (StateOverflow max_channel16) else Inr ())"

definition init16 :: "backend \<Rightarrow> string option \<Rightarrow> string option \<Rightarrow> int \<Rightarrow> (error + unit) \<times> board" where
  \<comment> \<open>\<open>__init__\<close>: stores the backend and opens it\<close>
  "init16 B device_address serial_number timeout =
     backend_open B device_address serial_number timeout \<lparr>has_backend = True, io = []\<rparr>"

definition set_all_states_on16 :: "backend \<Rightarrow> board \<Rightarrow> (error + unit) \<times> board" where
  "set_all_states_on16 B s =
     (if \<not> has_backend s then (Inl BackendNotOpen, s)
      else sbnd (backend_write B (ON_COMMAND @ EOC_PATTERN) s) (\<lambda>_ s.
           sbnd (backend_read B (Some 4) s) (\<lambda>_ s. (Inr (), s))))"

definition set_all_states_off16 :: "backend \<Rightarrow> board \<Rightarrow> (error + unit) \<times> board" where
  "set_all_states_off16 B s =
     (if \<not> has_backend s then (Inl BackendNotOpen, s)
      else sbnd (backend_write B (OFF_COMMAND @ EOC_PATTERN) s) (\<lambda>_ s.
           sbnd (backend_read B (Some 5) s) (\<lambda>_ s. (Inr (), s))))"

definition get_all_states16 :: "backend \<Rightarrow> board \<Rightarrow> (error + bool list) \<times> board" where
  "get_all_states16 B s =
     (if \<not> has_backend s then (Inl BackendNotOpen, s)
      else sbnd (backend_read B None s) (\<lambda>_ s.
           sbnd (backend_write B (ASK_COMMAND @ EOC_PATTERN) s) (\<lambda>_ s.
           sbnd (backend_read B (Some 2) s) (\<lambda>dat s.
             if length dat \<noteq> 2 then (Inl (InvalidResponseLength (length dat)), s)
             else
               let byte1 = uint (dat ! 0); byte2 = uint (dat ! 1)
               in (Inr (map (\<lambda>n. (byte1 AND push_bit n 1) \<noteq> 0) (rev [0..<8]) @
                        map (\<lambda>n. (byte2 AND push_bit n 1) \<noteq> 0) (rev [0..<8])), s)))))"

definition set_multiple_states16 :: "backend \<Rightarrow> bool list \<Rightarrow> board \<Rightarrow> (error + unit) \<times> board" where
  "set_multiple_states16 B states s =
     (if \<not> has_backend s then (Inl BackendNotOpen, s)
      else if length states \<noteq> 16 then (Inl StatesLengthError, s)
      else sbnd (sum_bits states (\<lambda>i. 7 - int i) [0..<8], s) (\<lambda>byte1 s.
           sbnd (sum_bits states (\<lambda>i. 15 - int i) [0..<8], s) (\<lambda>byte2 s.
           sbnd (bnd (py_byte byte1) (\<lambda>b1. bnd (py_byte byte2) (\<lambda>b2. Inr [b1, b2])), s)
             (\<lambda>encoded_states s.
           sbnd (backend_write B (MULTIPLE_COMMAND @ encoded_states @ EOC_PATTERN) s) (\<lambda>_ s.
           sbnd (backend_read B (Some 5) s) (\<lambda>_ s. (Inr (), s)))))))"

definition set_single_state16 :: "backend \<Rightarrow> bool \<Rightarrow> int \<Rightarrow> board \<Rightarrow> (error + unit) \<times> board" where
  "set_single_state16 B logic addr s =
     (if \<not> has_backend s then (Inl BackendNotOpen, s)
      else sbnd (integrity_check16 [addr], s) (\<lambda>_ s.
           let logic_pattern = (if logic then POSITIVE_LOGIC_PATTERN else NEGATIVE_LOGIC_PATTERN);
               addr_pattern = ascii (zfill 2 (py_str addr))
           in sbnd (backend_write B (addr_pattern @ logic_pattern @ EOC_PATTERN) s) (\<lambda>_ s.
              sbnd (backend_read B (Some 5) s) (\<lambda>_ s. (Inr (), s)))))"

text \<open>
  \<open>addr_ = set(addr)\<close>, written \<open>addr'\<close> below, is the list of addresses without its
  duplicates; the loops over it assign the same value at every address, so the order of
  iteration has no effect.
\<close>

definition set_state16 :: "backend \<Rightarrow> bool \<Rightarrow> int list \<Rightarrow> board \<Rightarrow> (error + unit) \<times> board" where
  "set_state16 B logic addr s =
     (if \<not> has_backend s then (Inl BackendNotOpen, s)
      else
        let addr' = remdups addr
        in sbnd (integrity_check16 addr', s) (\<lambda>_ s.
             if length addr' = 1 then set_single_state16 B logic (hd addr') s
             else sbnd (get_all_states16 B s) (\<lambda>original_states' s.
                  sbnd (assign_each original_states' addr' logic, s) (\<lambda>target_states s.
                  set_multiple_states16 B target_states s))))"

definition set_clear_state16 :: "backend \<Rightarrow> bool \<Rightarrow> int list \<Rightarrow> board \<Rightarrow> (error + unit) \<times> board" where
  "set_clear_state16 B logic addr s =
     (if \<not> has_backend s then (Inl BackendNotOpen, s)
      else
        let addr' = remdups addr
        in sbnd (integrity_check16 addr', s) (\<lambda>_ s.
             if \<not> logic then set_all_states_off16 B s
             else sbnd (assign_each (replicate 16 False) addr' True, s) (\<lambda>target_states s.
                  set_multiple_states16 B target_states s)))"

definition get_state16 :: "backend \<Rightarrow> int \<Rightarrow> board \<Rightarrow> (error + bool) \<times> board" where
  "get_state16 B addr s =
     (if \<not> has_backend s then (Inl BackendNotOpen, s)
      else sbnd (integrity_check16 [addr], s) (\<lambda>_ s.
           sbnd (get_all_states16 B s) (\<lambda>states s. (py_getitem states (addr - 1), s))))"

definition close16 :: "backend \<Rightarrow> board \<Rightarrow> (error + unit) \<times> board" where
  "close16 B s =
     (if has_backend s
      then sbnd (backend_close B s) (\<lambda>_ s. (Inr (), s\<lparr>has_backend := False\<rparr>))
      else (Inr (), s))"

subsection \<open>\<open>DenkoviRelayBoard8Ch\<close>: synchronous bit-bang\<close>

definition FT_SYNCHRONOUS_BIT_BANG_MODE :: int where "FT_SYNCHRONOUS_BIT_BANG_MODE = 0x04"
definition BIT_MASK :: int where "BIT_MASK = 0xFF"

definition max_channel8 :: int where "max_channel8 = 8"

definition integrity_check8 :: "int list \<Rightarrow> error + unit" where
  "integrity_check8 states =
     (if list_ex (\<lambda>state. state < 1 \<or> state > 8) states
      then Inl (StateOverflow max_channel8) else Inr ())"

definition init8 :: "backend \<Rightarrow> string option \<Rightarrow> string option \<Rightarrow> int \<Rightarrow> (error + unit) \<times> board" where
  "init8 B device_address serial_number timeout =
     sbnd (backend_open B device_address serial_number timeout \<lparr>has_backend = True, io = []\<rparr>)
       (\<lambda>_ s. backend_set_bit_mode B BIT_MASK FT_SYNCHRONOUS_BIT_BANG_MODE s)"

definition set_all_states_on8 :: "backend \<Rightarrow> board \<Rightarrow> (error + unit) \<times> board" where
  "set_all_states_on8 B s =
     (if \<not> has_backend s then (Inl BackendNotOpen, s) else backend_write B [0xFF] s)"

definition set_all_states_off8 :: "backend \<Rightarrow> board \<Rightarrow> (error + unit) \<times> board" where
  "set_all_states_off8 B s =
     (if \<not> has_backend s then (Inl BackendNotOpen, s) else backend_write B [0x00] s)"

definition get_all_states8 :: "backend \<Rightarrow> board \<Rightarrow> (error + bool list) \<times> board" where
  "get_all_states8 B s =
     (if \<not> has_backend s then (Inl BackendNotOpen, s)
      else sbnd (backend_get_bit_mode B s) (\<lambda>states' s.
           (Inr (map (\<lambda>i. (states' AND push_bit i 1) \<noteq> 0) [0..<8]), s)))"

definition set_state8 :: "backend \<Rightarrow> bool \<Rightarrow> int list \<Rightarrow> board \<Rightarrow> (error + unit) \<times> board" where
  "set_state8 B logic addr s =
     (if \<not> has_backend s then (Inl BackendNotOpen, s)
      else
        let addr' = remdups addr
        in sbnd (integrity_check8 addr', s) (\<lambda>_ s.
           sbnd (get_all_states8 B s) (\<lambda>original_states s.
           sbnd (assign_each original_states addr' logic, s) (\<lambda>target_states s.
           sbnd (bnd (sum_bits target_states int [0..<8]) py_byte, s) (\<lambda>encoded_states s.
           backend_write B [encoded_states] s)))))"

definition set_clear_state8 :: "backend \<Rightarrow> bool \<Rightarrow> int list \<Rightarrow> board \<Rightarrow> (error + unit) \<times> board" where
  "set_clear_state8 B logic addr s =
     (if \<not> has_backend s then (Inl BackendNotOpen, s)
      else
        let addr' = remdups addr
        in sbnd (integrity_check8 addr', s) (\<lambda>_ s.
             if \<not> logic then set_all_states_off8 B s
             else sbnd (assign_each (replicate 8 False) addr' True, s) (\<lambda>target_states s.
                  sbnd (bnd (sum_bits target_states int [0..<8]) py_byte, s) (\<lambda>encoded_states s.
                  backend_write B [encoded_states] s))))"

definition get_state8 :: "backend \<Rightarrow> int \<Rightarrow> board \<Rightarrow> (error + bool) \<times> board" where
  "get_state8 B addr s =
     (if \<not> has_backend s then (Inl BackendNotOpen, s)
      else sbnd (integrity_check8 [addr], s) (\<lambda>_ s.
           sbnd (backend_get_bit_mode B s) (\<lambda>states' s.
           (bnd (py_lshift1 (addr - 1)) (\<lambda>m. Inr ((states' AND m) \<noteq> 0)), s))))"

definition close8 :: "backend \<Rightarrow> board \<Rightarrow> (error + unit) \<times> board" where
  "close8 B s =
     (if has_backend s
      then sbnd (backend_close B s) (\<lambda>_ s. (Inr (), s\<lparr>has_backend := False\<rparr>))
      else (Inr (), s))"

subsection \<open>\<open>DenkoviRelayBoard4ChFT422\<close>: synchronous bit-bang, four relays\<close>

text \<open>
  This class keeps its backend in a field that is never \<open>None\<close>: no method tests it,
  and \<open>close\<close> leaves it in place.
\<close>

definition max_channel4ft :: int where "max_channel4ft = 4"

definition integrity_check4ft :: "int list \<Rightarrow> error + unit" where
  "integrity_check4ft states =
     (if list_ex (\<lambda>state. state < 1 \<or> state > 4) states
      then Inl (StateOverflow max_channel4ft) else Inr ())"

definition init4ft :: "backend \<Rightarrow> string option \<Rightarrow> string option \<Rightarrow> int \<Rightarrow> (error + unit) \<times> board" where
  "init4ft B device_address serial_number timeout =
     sbnd (backend_open B device_address serial_number timeout \<lparr>has_backend = True, io = []\<rparr>)
       (\<lambda>_ s. backend_set_bit_mode B BIT_MASK FT_SYNCHRONOUS_BIT_BANG_MODE s)"

definition set_all_states_on4ft :: "backend \<Rightarrow> board \<Rightarrow> (error + unit) \<times> board" where
  "set_all_states_on4ft B s = backend_write B [0xFF] s"

definition set_all_states_off4ft :: "backend \<Rightarrow> board \<Rightarrow> (error + unit) \<times> board" where
  "set_all_states_off4ft B s = backend_write B [0x00] s"

definition get_all_states4ft :: "backend \<Rightarrow> board \<Rightarrow> (error + bool list) \<times> board" where
  "get_all_states4ft B s =
     sbnd (backend_get_bit_mode B s) (\<lambda>states' s.
       (Inr (map (\<lambda>i. (states' AND push_bit i 1) \<noteq> 0) [0..<8]), s))"

definition set_state4ft :: "backend \<Rightarrow> bool \<Rightarrow> int list \<Rightarrow> board \<Rightarrow> (error + unit) \<times> board" where
  "set_state4ft B logic addr s =
     (let addr' = remdups addr
      in sbnd (integrity_check4ft addr', s) (\<lambda>_ s.
         sbnd (get_all_states4ft B s) (\<lambda>original_states s.
         sbnd (assign_each original_states addr' logic, s) (\<lambda>target_states s.
         sbnd (bnd (sum_bits target_states int [0..<8]) py_byte, s) (\<lambda>encoded_states s.
         backend_write B [encoded_states] s)))))"

definition set_clear_state4ft :: "backend \<Rightarrow> bool \<Rightarrow> int list \<Rightarrow> board \<Rightarrow> (error + unit) \<times> board" where
  "set_clear_state4ft B logic addr s =
     (let addr' = remdups addr
      in sbnd (integrity_check4ft addr', s) (\<lambda>_ s.
           if \<not> logic then set_all_states_off4ft B s
           else sbnd (assign_each (replicate 8 False) addr' True, s) (\<lambda>target_states s.
                sbnd (bnd (sum_bits target_states int [0..<8]) py_byte, s) (\<lambda>encoded_states s.
                backend_write B [encoded_states] s))))"

definition get_state4ft :: "backend \<Rightarrow> int \<Rightarrow> board \<Rightarrow> (error + bool) \<times> board" where
  "get_state4ft B addr s =
     sbnd (backend_get_bit_mode B s) (\<lambda>states' s.
       (bnd (py_lshift1 (addr - 1)) (\<lambda>m. Inr ((states' AND m) \<noteq> 0)), s))"

definition close4ft :: "backend \<Rightarrow> board \<Rightarrow> (error + unit) \<times> board" where
  "close4ft B s = backend_close B s"

subsection \<open>\<open>DenkoviRelayBoard4ChMCP2200\<close>: 16-byte HID reports\<close>

definition READ_ALL_OPCODE :: int where "READ_ALL_OPCODE = 0x80"
definition SET_CLEAR_OUT_OPCODE :: int where "SET_CLEAR_OUT_OPCODE = 0x08"
definition IO_PORT_VAL_BMAP_IDX :: int where "IO_PORT_VAL_BMAP_IDX = 10"

definition max_channel4mcp :: int where "max_channel4mcp = 4"

definition integrity_check4mcp :: "int list \<Rightarrow> error + unit" where
  "integrity_check4mcp states =
     (if list_ex (\<lambda>state. state < 1 \<or> state > 4) states then Inl (StateOverflow 4) else Inr ())"

definition init4mcp :: "backend \<Rightarrow> string option \<Rightarrow> string option \<Rightarrow> int \<Rightarrow> (error + unit) \<times> board" where
  "init4mcp B device_address serial_number timeout =
     backend_open B device_address serial_number timeout \<lparr>has_backend = True, io = []\<rparr>"

definition construct_control_bytes :: "bool list \<Rightarrow> error + byte list" where
  "construct_control_bytes states =
     (let data0 = replicate 16 (0 :: byte)
      in bnd (py_byte SET_CLEAR_OUT_OPCODE) (\<lambda>opcode.
         let data1 = data0[0 := opcode]
         in bnd (sum_bits states int [0..<4]) (\<lambda>bitmap.
            bnd (py_byte bitmap) (\<lambda>b11.
            let data2 = data1[11 := b11]
            in bnd (py_byte (uint (data2 ! 11) XOR 0xFF)) (\<lambda>b12.
               Inr (data2[12 := b12]))))))"

definition send_read_all_opcode :: "backend \<Rightarrow> board \<Rightarrow> (error + unit) \<times> board" where
  "send_read_all_opcode B s =
     (if \<not> has_backend s then (Inl BackendNotOpen, s)
      else sbnd (py_byte READ_ALL_OPCODE, s) (\<lambda>opcode s.
           backend_write B ((replicate 16 (0 :: byte))[0 := opcode]) s))"

definition set_all_states_on4mcp :: "backend \<Rightarrow> board \<Rightarrow> (error + unit) \<times> board" where
  "set_all_states_on4mcp B s =
     (if \<not> has_backend s then (Inl BackendNotOpen, s)
      else sbnd (construct_control_bytes [True, True, True, True], s) (\<lambda>d s.
           backend_write B d s))"

definition set_all_states_off4mcp :: "backend \<Rightarrow> board \<Rightarrow> (error + unit) \<times> board" where
  "set_all_states_off4mcp B s =
     (if \<not> has_backend s then (Inl BackendNotOpen, s)
      else sbnd (construct_control_bytes [False, False, False, False], s) (\<lambda>d s.
           backend_write B d s))"

definition get_all_states4mcp :: "backend \<Rightarrow> board \<Rightarrow> (error + bool list) \<times> board" where
  "get_all_states4mcp B s =
     (if \<not> has_backend s then (Inl BackendNotOpen, s)
      else sbnd (send_read_all_opcode B s) (\<lambda>_ s.
           sbnd (backend_read B (Some 16) s) (\<lambda>data' s.
           (bnd (py_getitem data' IO_PORT_VAL_BMAP_IDX) (\<lambda>b.
              Inr (map (\<lambda>i. (uint b AND push_bit i 1) \<noteq> 0) [0..<4])), s))))"

definition set_state4mcp :: "backend \<Rightarrow> bool \<Rightarrow> int list \<Rightarrow> board \<Rightarrow> (error + unit) \<times> board" where
  "set_state4mcp B logic addr s =
     (if \<not> has_backend s then (Inl BackendNotOpen, s)
      else
        let addr' = remdups addr
        in sbnd (integrity_check4mcp addr', s) (\<lambda>_ s.
           sbnd (get_all_states4mcp B s) (\<lambda>original_states s.
           sbnd (assign_each original_states addr' logic, s) (\<lambda>target_states s.
           sbnd (construct_control_bytes target_states, s) (\<lambda>encoded_states s.
           backend_write B encoded_states s)))))"

definition set_clear_state4mcp :: "backend \<Rightarrow> bool \<Rightarrow> int list \<Rightarrow> board \<Rightarrow> (error + unit) \<times> board" where
  "set_clear_state4mcp B logic addr s =
     (if \<not> has_backend s then (Inl BackendNotOpen, s)
      else
        let addr' = remdups addr
        in sbnd (integrity_check4mcp addr', s) (\<lambda>_ s.
             if \<not> logic then set_all_states_off4mcp B s
             else
               let target_states = map (\<lambda>i. List.member addr' (int i + 1)) [0..<4]
               in sbnd (construct_control_bytes target_states, s) (\<lambda>encoded_states s.
                  backend_write B encoded_states s)))"

definition get_state4mcp :: "backend \<Rightarrow> int \<Rightarrow> board \<Rightarrow> (error + bool) \<times> board" where
  "get_state4mcp B addr s =
     (if \<not> has_backend s then (Inl BackendNotOpen, s)
      else sbnd (get_all_states4mcp B s) (\<lambda>states s. (py_getitem states (addr - 1), s)))"

definition close4mcp :: "backend \<Rightarrow> board \<Rightarrow> (error + unit) \<times> board" where
  "close4mcp B s =
     (if has_backend s
      then sbnd (backend_close B s) (\<lambda>_ s. (Inr (), s\<lparr>has_backend := False\<rparr>))
      else (Inr (), s))"

subsection \<open>The native libraries as a backend sees them\<close>

text \<open>
  A backend calls the operating system's serial-port enumeration (\<open>comports()\<close>), the
  FTDI vendor library through \<open>PyFTD2XXWrapper\<close>, pyserial, the HID layer and pyftdi.
  Each such call is logged, and its answer is read from a function of the log so far.
\<close>

record port_info =
  port_device :: string
  port_serial_number :: "string option"

record ft_device_info =
  ft_id :: int
  ft_loc_id :: int
  ft_serial_number :: string

datatype native_call =
    Comports
  | FT_GetDeviceInfoList
  | FT_OpenEx string
  | FT_Close
  | FT_SetBaudRate int
  | FT_SetDataCharacteristics int int int
  | FT_SetTimeouts int int
  | Serial_Serial string int int
  | Serial_close
  | Hid_enumerate
  | Hid_Device string
  | Hid_close
  | Ftdi_find_all
  | Ftdi_open string
  | Ftdi_close
  | Ftdi_reset
  | Ftdi_set_bitmode int int
  | Ftdi_set_baudrate int
  | Ftdi_set_line_property int int string
  | Ftdi_timeouts int int
  | Ftdi_write_data "byte list"
  | Ftdi_purge_buffers

record native =
  n_comports :: "native_call list \<Rightarrow> error + port_info list"
  n_ft_devices :: "native_call list \<Rightarrow> error + ft_device_info list"
  n_ft_status :: "native_call list \<Rightarrow> nat"
  n_serial_is_open :: "native_call list \<Rightarrow> error + bool"
  n_hid_serials :: "native_call list \<Rightarrow> error + string option list"
  n_ftdi_serials :: "native_call list \<Rightarrow> error + string option list"
  n_raises :: "native_call list \<Rightarrow> error option"

record session =
  ncalls :: "native_call list"

definition native_ask ::
  "(native_call list \<Rightarrow> error + 'a) \<Rightarrow> native_call \<Rightarrow> 'b session_scheme
     \<Rightarrow> (error + 'a) \<times> 'b session_scheme" where
  "native_ask answer c s = (let h = ncalls s @ [c] in (answer h, s\<lparr>ncalls := h\<rparr>))"

definition native_do ::
  "(native_call list \<Rightarrow> error option) \<Rightarrow> native_call \<Rightarrow> 'b session_scheme
     \<Rightarrow> (error + unit) \<times> 'b session_scheme" where
  "native_do answer c s =
     (let h = ncalls s @ [c]
      in ((case answer h of Some e \<Rightarrow> Inl e | None \<Rightarrow> Inr ()), s\<lparr>ncalls := h\<rparr>))"

definition comports :: "native \<Rightarrow> 'b session_scheme \<Rightarrow> (error + port_info list) \<times> 'b session_scheme" where
  "comports N = native_ask (n_comports N) Comports"

definition truthy :: "string option \<Rightarrow> bool" where
  \<comment> \<open>\<open>bool(x)\<close> of an \<open>Optional[str]\<close>: \<open>None\<close> and the empty string are false\<close>
  "truthy x = (case x of None \<Rightarrow> False | Some s \<Rightarrow> s \<noteq> [])"

definition lower :: "string \<Rightarrow> string" where
  \<comment> \<open>\<open>s.lower()\<close>, for ASCII text\<close>
  "lower s =
     map (\<lambda>c. let n = (of_char c :: nat) in if 65 \<le> n \<and> n \<le> 90 then char_of (n + 32) else c) s"

subsection \<open>\<open>PyFTD2XXWrapper\<close> and \<open>FTD2XXBackend\<close>\<close>

record ftd2xx = session +
  ftd_handle :: bool
  ftd_serial_number :: "string option"
  ftd_port :: "string option"
  ftd_timeout :: int

definition ftd2xx_new :: ftd2xx where
  "ftd2xx_new =
     \<lparr>ncalls = [], ftd_handle = False, ftd_serial_number = None, ftd_port = None,
      ftd_timeout = 5000\<rparr>"

definition raise_for_status :: "nat \<Rightarrow> error + unit" where
  "raise_for_status status = (if status = 0 then Inr () else Inl (FTD2XXStatus status))"

definition ft_call :: "native \<Rightarrow> native_call \<Rightarrow> ftd2xx \<Rightarrow> (error + unit) \<times> ftd2xx" where
  \<comment> \<open>a call into the vendor library followed by \<open>raise_for_status\<close>\<close>
  "ft_call N c s =
     (let h = ncalls s @ [c] in (raise_for_status (n_ft_status N h), s\<lparr>ncalls := h\<rparr>))"

definition ft_close :: "native \<Rightarrow> ftd2xx \<Rightarrow> (error + unit) \<times> ftd2xx" where
  "ft_close N s =
     (if \<not> ftd_handle s then (Inl FTD2XXDeviceNotOpened, s)
      else sbnd (ft_call N FT_Close s) (\<lambda>_ s. (Inr (), s\<lparr>ftd_handle := False\<rparr>)))"

definition ft_open_by_serial_number :: "native \<Rightarrow> string \<Rightarrow> ftd2xx \<Rightarrow> (error + unit) \<times> ftd2xx" where
  "ft_open_by_serial_number N sn s =
     sbnd (ft_call N (FT_OpenEx sn) s) (\<lambda>_ s. (Inr (), s\<lparr>ftd_handle := True\<rparr>))"

definition ft_set_baudrate :: "native \<Rightarrow> int \<Rightarrow> ftd2xx \<Rightarrow> (error + unit) \<times> ftd2xx" where
  "ft_set_baudrate N baudrate s =
     (if \<not> ftd_handle s then (Inl AssertionError, s) else ft_call N (FT_SetBaudRate baudrate) s)"

definition set_data_characteristics ::
  "native \<Rightarrow> int \<Rightarrow> int \<Rightarrow> int \<Rightarrow> ftd2xx \<Rightarrow> (error + unit) \<times> ftd2xx" where
  "set_data_characteristics N bits stop_bits parity s =
     (if \<not> ftd_handle s then (Inl AssertionError, s)
      else ft_call N (FT_SetDataCharacteristics bits stop_bits parity) s)"

definition set_timeout :: "native \<Rightarrow> int \<Rightarrow> int \<Rightarrow> ftd2xx \<Rightarrow> (error + unit) \<times> ftd2xx" where
  "set_timeout N ms_tx ms_rx s =
     (if \<not> ftd_handle s then (Inl AssertionError, s) else ft_call N (FT_SetTimeouts ms_rx ms_tx) s)"

definition get_devices_info :: "native \<Rightarrow> ftd2xx \<Rightarrow> (error + ft_device_info list) \<times> ftd2xx" where
  "get_devices_info N = native_ask (n_ft_devices N) FT_GetDeviceInfoList"

fun actual_serial :: "ft_device_info list \<Rightarrow> string \<Rightarrow> string option" where
  \<comment> \<open>the loop of \<open>__get_actual_serial_number\<close>\<close>
  "actual_serial [] sn = None"
| "actual_serial (ftdi_device # rest) sn =
     (if lower (ft_serial_number ftdi_device) = lower sn then Some (ft_serial_number ftdi_device)
      else actual_serial rest sn)"

definition get_actual_serial_number ::
  "native \<Rightarrow> string \<Rightarrow> ftd2xx \<Rightarrow> (error + string option) \<times> ftd2xx" where
  "get_actual_serial_number N sn s =
     sbnd (get_devices_info N s) (\<lambda>ftdi_devices s. (Inr (actual_serial ftdi_devices sn), s))"

fun port_by_serial :: "port_info list \<Rightarrow> string \<Rightarrow> string option" where
  \<comment> \<open>the loop of \<open>__get_port_by_serial_number\<close>\<close>
  "port_by_serial [] sn = None"
| "port_by_serial (device_info # rest) sn =
     (case port_serial_number device_info of
        None \<Rightarrow> port_by_serial rest sn
      | Some os_serial \<Rightarrow>
          if butlast (lower os_serial) = lower sn then Some (port_device device_info)
          else port_by_serial rest sn)"

definition get_port_by_serial_number ::
  "native \<Rightarrow> string \<Rightarrow> ftd2xx \<Rightarrow> (error + string option) \<times> ftd2xx" where
  "get_port_by_serial_number N sn s =
     sbnd (comports N s) (\<lambda>devices_info s. (Inr (port_by_serial devices_info sn), s))"

fun serial_by_port ::
  "native \<Rightarrow> port_info list \<Rightarrow> string \<Rightarrow> ftd2xx \<Rightarrow> (error + string option) \<times> ftd2xx" where
  \<comment> \<open>the loop of \<open>__get_serial_number_by_port\<close>\<close>
  "serial_by_port N [] port s = (Inr None, s)"
| "serial_by_port N (device_info # rest) port s =
     (if lower (port_device device_info) = lower port
      then (case port_serial_number device_info of
              None \<Rightarrow> (Inl AssertionError, s)
            | Some os_serial \<Rightarrow> get_actual_serial_number N (butlast os_serial) s)
      else serial_by_port N rest port s)"

definition get_serial_number_by_port ::
  "native \<Rightarrow> string \<Rightarrow> ftd2xx \<Rightarrow> (error + string option) \<times> ftd2xx" where
  "get_serial_number_by_port N port s =
     sbnd (comports N s) (\<lambda>devices_info s. serial_by_port N devices_info port s)"

definition open_by_serial_number :: "native \<Rightarrow> string \<Rightarrow> ftd2xx \<Rightarrow> (error + unit) \<times> ftd2xx" where
  "open_by_serial_number N sn s = ft_open_by_serial_number N sn s"

definition open_by_port :: "native \<Rightarrow> string \<Rightarrow> ftd2xx \<Rightarrow> (error + unit) \<times> ftd2xx" where
  "open_by_port N port s =
     sbnd (get_devices_info N s) (\<lambda>ftdi_devices s.
     sbnd (comports N s) (\<lambda>com_ports s.
       case find (\<lambda>port_info. port_device port_info = port) com_ports of
         None \<Rightarrow> (Inl NoDeviceFound, s)
       | Some target_port_info \<Rightarrow>
           (case port_serial_number target_port_info of
              None \<Rightarrow> (Inl NoDeviceFound, s)
            | Some os_serial \<Rightarrow>
                (case find (\<lambda>ftdi_device. ft_serial_number ftdi_device = butlast os_serial)
                        ftdi_devices of
                   None \<Rightarrow> (Inl NoDeviceFound, s)
                 | Some ftdi_device \<Rightarrow>
                     open_by_serial_number N (ft_serial_number ftdi_device) s))))"

definition ftd2xx_resolve ::
  "native \<Rightarrow> string option \<Rightarrow> string option \<Rightarrow> ftd2xx \<Rightarrow> (error + string) \<times> ftd2xx" where
  \<comment> \<open>the two branches of \<open>open\<close> that fill in \<open>self.serial_number\<close> and \<open>self.port\<close>\<close>
  "ftd2xx_resolve N device_address serial_number s =
     (case device_address of
        None \<Rightarrow>
          (case serial_number of
             None \<Rightarrow> (Inl AssertionError, s)
           | Some sn \<Rightarrow>
               sbnd (get_actual_serial_number N sn s) (\<lambda>actual s.
                 case actual of
                   None \<Rightarrow> (Inl NoDeviceFound, s\<lparr>ftd_serial_number := None\<rparr>)
                 | Some a \<Rightarrow>
                     sbnd (get_port_by_serial_number N a (s\<lparr>ftd_serial_number := Some a\<rparr>))
                       (\<lambda>port s. (Inr a, s\<lparr>ftd_port := port\<rparr>))))
      | Some da \<Rightarrow>
          sbnd (get_serial_number_by_port N da (s\<lparr>ftd_port := Some da\<rparr>)) (\<lambda>found s.
            case found of
              None \<Rightarrow> (Inl NoDeviceFound, s\<lparr>ftd_serial_number := None\<rparr>)
            | Some a \<Rightarrow> (Inr a, s\<lparr>ftd_serial_number := Some a\<rparr>)))"

definition ftd2xx_open ::
  "native \<Rightarrow> string option \<Rightarrow> string option \<Rightarrow> int \<Rightarrow> ftd2xx \<Rightarrow> (error + unit) \<times> ftd2xx" where
  "ftd2xx_open N device_address serial_number timeout s =
     (if truthy device_address = truthy serial_number then (Inl EitherAddressOrSerial, s)
      else sbnd (ftd2xx_resolve N device_address serial_number s) (\<lambda>sn s.
           sbnd (open_by_serial_number N sn (s\<lparr>ftd_timeout := timeout\<rparr>)) (\<lambda>_ s.
           sbnd (ft_set_baudrate N 9600 s) (\<lambda>_ s.
           sbnd (set_data_characteristics N 8 0 0 s) (\<lambda>_ s.
           set_timeout N (ftd_timeout s) (ftd_timeout s) s)))))"

definition ftd2xx_close :: "native \<Rightarrow> ftd2xx \<Rightarrow> (error + unit) \<times> ftd2xx" where
  "ftd2xx_close N s = ft_close N s"

subsection \<open>\<open>VCPBackend\<close>\<close>

record vcp = session +
  vcp_serial :: "bool option"
  vcp_port :: "string option"
  vcp_serial_number :: "string option"
  vcp_timeout :: int

definition vcp_new :: vcp where
  "vcp_new =
     \<lparr>ncalls = [], vcp_serial = None, vcp_port = None, vcp_serial_number = None,
      vcp_timeout = 5000\<rparr>"

fun vcp_port_by_serial :: "port_info list \<Rightarrow> string \<Rightarrow> string option" where
  "vcp_port_by_serial [] sn = None"
| "vcp_port_by_serial (port # rest) sn =
     (case port_serial_number port of
        None \<Rightarrow> vcp_port_by_serial rest sn
      | Some os_serial \<Rightarrow>
          if sublist (lower sn) (lower os_serial) then Some (port_device port)
          else vcp_port_by_serial rest sn)"

definition vcp_get_port_by_serial_number ::
  "native \<Rightarrow> string \<Rightarrow> vcp \<Rightarrow> (error + string option) \<times> vcp" where
  "vcp_get_port_by_serial_number N sn s =
     sbnd (comports N s) (\<lambda>ports s. (Inr (vcp_port_by_serial ports sn), s))"

definition vcp_get_serial_number_by_port ::
  "native \<Rightarrow> string \<Rightarrow> vcp \<Rightarrow> (error + string option) \<times> vcp" where
  "vcp_get_serial_number_by_port N device_address s =
     sbnd (comports N s) (\<lambda>ports s.
       (Inr (case find (\<lambda>port. port_device port = device_address) ports of
               None \<Rightarrow> None
             | Some port \<Rightarrow> port_serial_number port), s))"

definition vcp_resolve ::
  "native \<Rightarrow> string option \<Rightarrow> string option \<Rightarrow> vcp
     \<Rightarrow> (error + string \<times> string option) \<times> vcp" where
  "vcp_resolve N device_address serial_number s =
     (case device_address of
        None \<Rightarrow>
          (case serial_number of
             None \<Rightarrow> (Inl AssertionError, s)
           | Some sn \<Rightarrow>
               sbnd (vcp_get_port_by_serial_number N sn s) (\<lambda>port s.
                 case port of
                   None \<Rightarrow> (Inl NoDeviceFound, s\<lparr>vcp_port := None\<rparr>)
                 | Some p \<Rightarrow> (Inr (p, serial_number), s\<lparr>vcp_port := Some p\<rparr>)))
      | Some da \<Rightarrow>
          sbnd (vcp_get_serial_number_by_port N da (s\<lparr>vcp_port := Some da\<rparr>)) (\<lambda>found s.
            (Inr (da, found), s)))"

definition vcp_open ::
  "native \<Rightarrow> string option \<Rightarrow> string option \<Rightarrow> int \<Rightarrow> vcp \<Rightarrow> (error + unit) \<times> vcp" where
  "vcp_open N device_address serial_number timeout s =
     (if truthy device_address = truthy serial_number then (Inl EitherAddressOrSerial, s)
      else sbnd (vcp_resolve N device_address serial_number s) (\<lambda>resolved s.
           sbnd (native_ask (n_serial_is_open N) (Serial_Serial (fst resolved) 9600 timeout)
                   (s\<lparr>vcp_timeout := timeout, vcp_serial_number := snd resolved\<rparr>))
             (\<lambda>is_open s.
                if \<not> is_open then (Inl FailedToOpen, s\<lparr>vcp_serial := Some is_open\<rparr>)
                else (Inr (), s\<lparr>vcp_serial := Some is_open\<rparr>))))"

definition vcp_close :: "native \<Rightarrow> vcp \<Rightarrow> (error + unit) \<times> vcp" where
  "vcp_close N s =
     (if vcp_serial s = Some True
      then sbnd (native_do (n_raises N) Serial_close s) (\<lambda>_ s. (Inr (), s\<lparr>vcp_serial := None\<rparr>))
      else (Inr (), s))"

subsection \<open>\<open>MCP2200Backend\<close>\<close>

record mcp2200 = session +
  mcp_hid_device :: bool
  mcp_serial_number :: "string option"
  mcp_timeout :: int

definition mcp2200_new :: mcp2200 where
  "mcp2200_new = \<lparr>ncalls = [], mcp_hid_device = False, mcp_serial_number = None, mcp_timeout = 5000\<rparr>"

record discovered_device =
  dd_backend :: string
  dd_device_address :: "string option"
  dd_serial_number :: "string option"

definition mcp2200_list_potential_devices ::
  "native \<Rightarrow> mcp2200 \<Rightarrow> discovered_device list \<times> mcp2200" where
  \<comment> \<open>both enumerations are inside \<open>try\<close>: an exception leaves the dictionary, or the result,
      empty.  A serial number seen twice keeps the port seen last.\<close>
  "mcp2200_list_potential_devices N s =
     (let (r1, s1) = comports N s;
          com_ports = (case r1 of
                         Inl _ \<Rightarrow> Map.empty
                       | Inr ports \<Rightarrow>
                           map_of (rev (map (\<lambda>port. (port_serial_number port, port_device port))
                                          (filter (\<lambda>port. truthy (port_serial_number port)) ports))));
          (r2, s2) = native_ask (n_hid_serials N) Hid_enumerate s1
      in ((case r2 of
             Inl _ \<Rightarrow> []
           | Inr serials \<Rightarrow>
               map (\<lambda>serial_number.
                      \<lparr>dd_backend = ''mcp2200'',
                       dd_device_address =
                         (if truthy serial_number then com_ports serial_number else None),
                       dd_serial_number = serial_number\<rparr>) serials), s2))"

definition find_serial_number :: "native \<Rightarrow> string \<Rightarrow> mcp2200 \<Rightarrow> string option \<times> mcp2200" where
  "find_serial_number N device_address s =
     (let (devices, s1) = mcp2200_list_potential_devices N s
      in ((case find (\<lambda>device. dd_device_address device = Some device_address) devices of
             None \<Rightarrow> None
           | Some device \<Rightarrow> dd_serial_number device), s1))"

definition mcp2200_open ::
  "native \<Rightarrow> string option \<Rightarrow> string option \<Rightarrow> int \<Rightarrow> mcp2200 \<Rightarrow> (error + unit) \<times> mcp2200" where
  \<comment> \<open>an exception of \<open>hid.Device(...)\<close> is re-raised as \<open>RuntimeError("Failed to open ...")\<close>\<close>
  "mcp2200_open N device_address serial_number timeout s =
     (if truthy device_address = truthy serial_number then (Inl EitherAddressOrSerial, s)
      else sbnd (if truthy serial_number then (Inr serial_number, s)
                 else (case device_address of
                         None \<Rightarrow> (Inl AssertionError, s)
                       | Some da \<Rightarrow>
                           (let (found, s1) = find_serial_number N da s in (Inr found, s1))))
             (\<lambda>serial' s.
                case serial' of
                  None \<Rightarrow> (Inl NoDeviceFound, s)
                | Some sn \<Rightarrow>
                    (let (r, s2) = native_do (n_raises N) (Hid_Device sn) (s\<lparr>mcp_timeout := timeout\<rparr>)
                     in (case r of
                           Inl _ \<Rightarrow> (Inl FailedToOpen, s2)
                         | Inr _ \<Rightarrow>
                             (Inr (), s2\<lparr>mcp_hid_device := True,
                                          mcp_serial_number := Some sn\<rparr>)))))"

definition mcp2200_close :: "native \<Rightarrow> mcp2200 \<Rightarrow> (error + unit) \<times> mcp2200" where
  \<comment> \<open>an exception of the HID layer is logged and dropped\<close>
  "mcp2200_close N s =
     (if \<not> mcp_hid_device s then (Inr (), s)
      else (Inr (), (snd (native_do (n_raises N) Hid_close s))\<lparr>mcp_hid_device := False\<rparr>))"

subsection \<open>\<open>PyFtdiBackend\<close>\<close>

record pyftdi = session +
  pyf_is_opened :: bool
  pyf_port :: "string option"
  pyf_serial_number :: "string option"
  pyf_timeout :: int

definition pyftdi_new :: pyftdi where
  "pyftdi_new =
     \<lparr>ncalls = [], pyf_is_opened = False, pyf_port = None, pyf_serial_number = None,
      pyf_timeout = 5000\<rparr>"

definition pyftdi_resolve ::
  "native \<Rightarrow> string option \<Rightarrow> string option \<Rightarrow> pyftdi \<Rightarrow> (error + string option) \<times> pyftdi" where
  "pyftdi_resolve N device_address serial_number s =
     (case device_address of
        None \<Rightarrow> (Inr serial_number, s)
      | Some da \<Rightarrow>
          sbnd (comports N (s\<lparr>pyf_port := Some da\<rparr>)) (\<lambda>ports s.
            let found = (case find (\<lambda>port_info. port_device port_info = da) ports of
                           None \<Rightarrow> serial_number
                         | Some port_info \<Rightarrow> port_serial_number port_info)
            in if \<not> truthy found then (Inl NoDeviceFound, s) else (Inr found, s)))"

definition pyftdi_search :: "native \<Rightarrow> string option \<Rightarrow> pyftdi \<Rightarrow> pyftdi" where
  \<comment> \<open>the \<open>try\<close> block of \<open>open\<close>: any exception in it is logged and dropped\<close>
  "pyftdi_search N serial_number s =
     (let (r, s1) = native_ask (n_ftdi_serials N) Ftdi_find_all s
      in (case r of
            Inl _ \<Rightarrow> s1
          | Inr descriptors \<Rightarrow>
              (case find (\<lambda>sn. sn = serial_number) descriptors of
                 None \<Rightarrow> s1
               | Some sn \<Rightarrow>
                   (let (r2, s2) = native_do (n_raises N)
                                     (Ftdi_open (case sn of None \<Rightarrow> [] | Some x \<Rightarrow> x)) s1
                    in (case r2 of Inl _ \<Rightarrow> s2 | Inr _ \<Rightarrow> s2\<lparr>pyf_is_opened := True\<rparr>)))))"

definition pyftdi_open ::
  "native \<Rightarrow> string option \<Rightarrow> string option \<Rightarrow> int \<Rightarrow> pyftdi \<Rightarrow> (error + unit) \<times> pyftdi" where
  "pyftdi_open N device_address serial_number timeout s =
     (if truthy device_address = truthy serial_number then (Inl EitherAddressOrSerial, s)
      else sbnd (pyftdi_resolve N device_address serial_number s) (\<lambda>sn s.
           sbnd (native_do (n_raises N) Ftdi_reset
                   ((pyftdi_search N sn s)\<lparr>pyf_serial_number := sn\<rparr>)) (\<lambda>_ s.
           sbnd (native_do (n_raises N) (Ftdi_set_bitmode 0 0) s) (\<lambda>_ s.
           sbnd (native_do (n_raises N) (Ftdi_set_baudrate 9600) s) (\<lambda>_ s.
           sbnd (native_do (n_raises N) (Ftdi_set_line_property 8 1 ''N'') s) (\<lambda>_ s.
           sbnd (native_do (n_raises N) (Ftdi_timeouts (pyf_timeout s) (pyf_timeout s)) s) (\<lambda>_ s.
           sbnd (native_do (n_raises N) (Ftdi_write_data [0x00]) (s\<lparr>pyf_timeout := timeout\<rparr>))
             (\<lambda>_ s.
           native_do (n_raises N) Ftdi_purge_buffers s))))))))"

definition pyftdi_close :: "native \<Rightarrow> pyftdi \<Rightarrow> (error + unit) \<times> pyftdi" where
  "pyftdi_close N s =
     (if pyf_is_opened s
      then (Inr (), (snd (native_do (n_raises N) Ftdi_close s))\<lparr>pyf_is_opened := False\<rparr>)
      else (Inr (), s))"

subsection \<open>Example backends\<close>

definition quiet_backend :: backend where
  \<comment> \<open>never raises, has nothing to read, reports all pins low\<close>
  "quiet_backend =
     \<lparr>b_open = (\<lambda>_. None), b_close = (\<lambda>_. None), b_write = (\<lambda>_. None),
      b_read = (\<lambda>_. Inr []), b_set_bit_mode = (\<lambda>_. None),
      b_get_bit_mode = (\<lambda>_. Inr 0), b_get_serial_number = (\<lambda>_. Inr [])\<rparr>"

definition fresh_board :: board where
  \<comment> \<open>a board whose backend is set and that has made no call yet\<close>
  "fresh_board = \<lparr>has_backend = True, io = []\<rparr>"

definition demo_backend :: backend where
  \<comment> \<open>never raises; the 16-channel query is answered \<open>0x80 0x01\<close>, the HID read-all report
      carries \<open>0x02\<close> at byte 10, and the pin register reads \<open>0x02\<close>\<close>
  "demo_backend =
     quiet_backend
       \<lparr>b_read := (\<lambda>h. if last h = Read (Some 2) then Inr [0x80, 0x01]
                        else if last h = Read (Some 16)
                        then Inr [0, 0, 0, 0, 0, 0, 0, 0, 0, 0, 0x02, 0, 0, 0, 0, 0]
                        else Inr []),
        b_get_bit_mode := (\<lambda>_. Inr 0x02)\<rparr>"

definition quiet_native :: native where
  \<comment> \<open>no device anywhere, and no call fails\<close>
  "quiet_native =
     \<lparr>n_comports = (\<lambda>_. Inr []), n_ft_devices = (\<lambda>_. Inr []), n_ft_status = (\<lambda>_. 0),
      n_serial_is_open = (\<lambda>_. Inr True), n_hid_serials = (\<lambda>_. Inr []),
      n_ftdi_serials = (\<lambda>_. Inr []), n_raises = (\<lambda>_. None)\<rparr>"

definition demo_native :: native where
  \<comment> \<open>one FTDI chip with serial number \<open>ftABCD\<close>, which the operating system lists as port
      \<open>COM3\<close> with serial number \<open>FTABCDA\<close>\<close>
  "demo_native =
     quiet_native
       \<lparr>n_comports := (\<lambda>_. Inr [\<lparr>port_device = ''COM3'', port_serial_number = Some ''FTABCDA''\<rparr>]),
        n_ft_devices := (\<lambda>_. Inr [\<lparr>ft_id = 1, ft_loc_id = 1, ft_serial_number = ''ftABCD''\<rparr>])\<rparr>"

subsection \<open>Notions used to state the properties\<close>

definition merged :: "(nat \<Rightarrow> bool) \<Rightarrow> int list \<Rightarrow> bool \<Rightarrow> nat \<Rightarrow> bool" where
  \<comment> \<open>the state of channel \<open>i + 1\<close> once the channels listed in \<open>addr\<close> are overwritten with
      \<open>logic\<close> and every other channel keeps its state \<open>old i\<close>\<close>
  "merged old addr logic i = (if int i + 1 \<in> set addr then logic else old i)"

definition read_all_report :: "byte list" where
  \<comment> \<open>the 16-byte report that \<open>__send_read_all_opcode\<close> writes\<close>
  "read_all_report = [0x80, 0, 0, 0, 0, 0, 0, 0, 0, 0, 0, 0, 0, 0, 0, 0]"

definition states16 :: "byte list \<Rightarrow> nat \<Rightarrow> bool" where
  \<comment> \<open>the state of channel \<open>k + 1\<close> in a two-byte answer to \<open>ask//\<close>\<close>
  "states16 dat k = (if k < 8 then bit (dat ! 0) (7 - k) else bit (dat ! 1) (15 - k))"

definition bitmap :: "(nat \<Rightarrow> bool) \<Rightarrow> nat \<Rightarrow> int" where
  \<comment> \<open>the integer whose bit \<open>i\<close> is \<open>f i\<close> for \<open>i < n\<close>, and whose other bits are clear\<close>
  "bitmap f n = horner_sum of_bool 2 (map f [0..<n])"

section \<open>Properties\<close>

subsection \<open>Sequencing and list primitives\<close>

lemma bnd_simps [simp]: "bnd (Inl e) f = Inl e" "bnd (Inr x) f = f x"
  by (simp_all add: bnd_def)

lemma sbnd_simps [simp]: "sbnd (Inl e, s) f = (Inl e, s)" "sbnd (Inr x, s) f = f x s"
  by (simp_all add: sbnd_def)

lemma upt8: "[0..<8] = [0, 1, 2, 3, 4, 5, 6, 7 :: nat]"
  by code_simp

lemma upt4: "[0..<4] = [0, 1, 2, 3 :: nat]"
  by code_simp

lemma replicate16: "replicate 16 x = [x, x, x, x, x, x, x, x, x, x, x, x, x, x, x, x]"
  by (simp add: numeral_eq_Suc)

lemma sum_bits_upt:
  assumes "\<And>i. k \<le> i \<Longrightarrow> i < n \<Longrightarrow> 0 \<le> idx i \<and> idx i < int (length states)"
  shows "sum_bits states idx [k..<n] =
           Inr (push_bit k (horner_sum of_bool 2 (map (\<lambda>i. states ! nat (idx i)) [k..<n])))"
  using assms
proof (induction d \<equiv> "n - k" arbitrary: k)
  case 0
  then show ?case by simp
next
  case (Suc d)
  then have kn: "k < n" by simp
  have ok: "0 \<le> idx k \<and> idx k < int (length states)"
    using Suc.prems kn by simp
  have ih: "sum_bits states idx [Suc k..<n] =
              Inr (push_bit (Suc k)
                    (horner_sum of_bool 2 (map (\<lambda>i. states ! nat (idx i)) [Suc k..<n])))"
    using Suc.hyps(1) [of "Suc k"] Suc.hyps(2) Suc.prems by simp
  show ?case
    using kn ok ih
    by (simp add: upt_conv_Cons py_getitem_def py_index_def push_bit_add mult.commute)
qed

lemma bit_bitmap: "bit (bitmap f n) i \<longleftrightarrow> i < n \<and> f i"
  by (auto simp add: bitmap_def bit_horner_sum_bit_iff)

lemma bitmap_range: "0 \<le> bitmap f n" "bitmap f n < 2 ^ n"
  using horner_sum_bound [of "map f [0..<n]", where ?'a = int]
  by (simp_all add: bitmap_def horner_sum_nonnegative)

lemma sum_bits_bitmap:
  assumes "\<And>i. i < n \<Longrightarrow> 0 \<le> idx i \<and> idx i < int (length states)"
  shows "sum_bits states idx [0..<n] = Inr (bitmap (\<lambda>i. states ! nat (idx i)) n)"
  using sum_bits_upt [of 0 n idx states] assms by (simp add: bitmap_def)

lemma py_byte_bitmap: "n \<le> 8 \<Longrightarrow> py_byte (bitmap f n) = Inr (word_of_int (bitmap f n))"
proof -
  assume "n \<le> 8"
  then have "(2::int) ^ n \<le> 2 ^ 8"
    by (intro power_increasing) simp_all
  then have "bitmap f n < 256"
    using bitmap_range(2) [of f n] by simp
  then show ?thesis
    using bitmap_range(1) [of f n] by (simp add: py_byte_def)
qed

lemma bit_byte_bitmap:
  "n \<le> 8 \<Longrightarrow> bit (word_of_int (bitmap f n) :: byte) i \<longleftrightarrow> i < n \<and> f i"
  by (auto simp add: bit_word_of_int_iff bit_bitmap)

lemma int255: "(255::int) = mask 8"
  by (simp add: mask_eq_exp_minus_1)

lemma py_byte_complement: "py_byte (uint (b :: byte) XOR 0xFF) = Inr (NOT b)"
proof -
  have lo: "0 \<le> uint b XOR 255"
    by (simp add: XOR_lower)
  have "uint b < 2 ^ 8"
    using uint_lt2p [of b] by simp
  then have hi: "uint b XOR 255 < 2 ^ 8"
    by (intro XOR_upper) simp_all
  have "(word_of_int (uint b XOR 255) :: byte) = NOT b"
    by (rule bit_word_eqI) (auto simp add: bit_simps int255)
  then show ?thesis
    using lo hi by (simp add: py_byte_def)
qed

lemma and_exp_bit: "((x::int) AND 2 ^ k \<noteq> 0) = bit x k"
  by (simp add: bit_iff_and_push_bit_not_eq_0)

subsection \<open>The 4-channel HID report\<close>

lemma construct_control_bytes_eq:
  assumes "4 \<le> length states"
  shows "construct_control_bytes states =
           Inr ((replicate 16 0)[0 := 0x08,
                                 11 := word_of_int (bitmap (\<lambda>i. states ! i) 4),
                                 12 := NOT (word_of_int (bitmap (\<lambda>i. states ! i) 4))])"
proof -
  have sb: "sum_bits states int [0..<4] = Inr (bitmap (\<lambda>i. states ! i) 4)"
    using sum_bits_bitmap [of 4 int states] assms by simp
  show ?thesis
    by (simp add: construct_control_bytes_def Let_def SET_CLEAR_OUT_OPCODE_def sb
        py_byte_bitmap py_byte_complement)
       (simp add: py_byte_def)
qed

text \<open>
  Claim C6.  A set/clear command of the 4-channel HID board is what
  \<open>__construct_control_bytes\<close> returns for a list of (at least) four states: a buffer
  of 16 bytes whose byte 0 is \<open>0x08\<close>, whose byte 11 has bit \<open>i\<close> set exactly when
  \<open>i < 4\<close> and channel \<open>i + 1\<close> is requested on, whose byte 12 is the bitwise complement
  of byte 11, and whose other bytes are zero.  For channels 1 and 3 on, the states are
  \<open>[True, False, True, False]\<close>, byte 11 is \<open>0b00000101\<close> and byte 12 is \<open>0b11111010\<close>;
  this is the one buffer \<open>set_clear_state(True, 1, 3)\<close> writes.
\<close>

theorem construct_control_bytes_layout:
  assumes "4 \<le> length states"
  shows "(\<exists>buf. construct_control_bytes states = Inr buf
            \<and> length buf = 16
            \<and> buf ! 0 = 0x08
            \<and> (\<forall>i. bit (buf ! 11) i \<longleftrightarrow> i < 4 \<and> states ! i)
            \<and> buf ! 12 = NOT (buf ! 11)
            \<and> (\<forall>k < 16. k \<noteq> 0 \<and> k \<noteq> 11 \<and> k \<noteq> 12 \<longrightarrow> buf ! k = 0))
         \<and> (states = [True, False, True, False] \<longrightarrow>
              (\<exists>buf. construct_control_bytes states = Inr buf
                 \<and> buf ! 11 = 0b00000101 \<and> buf ! 12 = 0b11111010))
         \<and> (has_backend s \<longrightarrow>
              set_clear_state4mcp B True [1, 3] s =
                ((case b_write B (io s @ [Write [8, 0, 0, 0, 0, 0, 0, 0, 0, 0, 0, 5, 250, 0, 0, 0]]) of
                    Some e \<Rightarrow> Inl e | None \<Rightarrow> Inr ()),
                 s\<lparr>io := io s @ [Write [8, 0, 0, 0, 0, 0, 0, 0, 0, 0, 0, 5, 250, 0, 0, 0]]\<rparr>))"
proof -
  let ?b11 = "word_of_int (bitmap (\<lambda>i. states ! i) 4) :: byte"
  let ?buf = "(replicate 16 0)[0 := 0x08, 11 := ?b11, 12 := NOT ?b11]"
  have eq: "construct_control_bytes states = Inr ?buf"
    using assms by (rule construct_control_bytes_eq)
  have bits: "\<forall>i. bit (?buf ! 11) i \<longleftrightarrow> i < 4 \<and> states ! i"
    by (simp add: bit_byte_bitmap)
  have rest: "\<forall>k < 16. k \<noteq> 0 \<and> k \<noteq> 11 \<and> k \<noteq> 12 \<longrightarrow> ?buf ! k = 0"
    by simp
  have general: "\<exists>buf. construct_control_bytes states = Inr buf
            \<and> length buf = 16
            \<and> buf ! 0 = 0x08
            \<and> (\<forall>i. bit (buf ! 11) i \<longleftrightarrow> i < 4 \<and> states ! i)
            \<and> buf ! 12 = NOT (buf ! 11)
            \<and> (\<forall>k < 16. k \<noteq> 0 \<and> k \<noteq> 11 \<and> k \<noteq> 12 \<longrightarrow> buf ! k = 0)"
    using eq bits rest by (intro exI [of _ ?buf]) simp
  have c13: "construct_control_bytes [True, False, True, False] =
               Inr [8, 0, 0, 0, 0, 0, 0, 0, 0, 0, 0, 5, 250, 0, 0, 0]"
    by (simp add: construct_control_bytes_def Let_def SET_CLEAR_OUT_OPCODE_def upt4
        py_getitem_def py_index_def py_byte_def replicate16)
  have example: "states = [True, False, True, False] \<longrightarrow>
              (\<exists>buf. construct_control_bytes states = Inr buf
                 \<and> buf ! 11 = 0b00000101 \<and> buf ! 12 = 0b11111010)"
    using c13 by simp
  have command: "has_backend s \<longrightarrow>
              set_clear_state4mcp B True [1, 3] s =
                ((case b_write B (io s @ [Write [8, 0, 0, 0, 0, 0, 0, 0, 0, 0, 0, 5, 250, 0, 0, 0]]) of
                    Some e \<Rightarrow> Inl e | None \<Rightarrow> Inr ()),
                 s\<lparr>io := io s @ [Write [8, 0, 0, 0, 0, 0, 0, 0, 0, 0, 0, 5, 250, 0, 0, 0]]\<rparr>)"
    by (simp add: set_clear_state4mcp_def integrity_check4mcp_def Let_def upt4
        c13 backend_write_def backend_do_def)
  show ?thesis
    using general example command by blast
qed

theorem construct_control_bytes_layout_witness:
  "4 \<le> length [True, False, True, False]
   \<and> has_backend fresh_board
   \<and> (\<exists>buf. construct_control_bytes [True, False, True, False] = Inr buf
          \<and> buf ! 11 = 0b00000101 \<and> buf ! 12 = 0b11111010)
   \<and> set_clear_state4mcp quiet_backend True [1, 3] fresh_board =
         (Inr (), \<lparr>has_backend = True,
                    io = [Write [8, 0, 0, 0, 0, 0, 0, 0, 0, 0, 0, 5, 250, 0, 0, 0]]\<rparr>)"
proof -
  have len: "4 \<le> length [True, False, True, False]"
    by simp
  have hb: "has_backend fresh_board"
    by (simp add: fresh_board_def)
  note layout =
    construct_control_bytes_layout [OF len, of fresh_board quiet_backend]
  have ex: "\<exists>buf. construct_control_bytes [True, False, True, False] = Inr buf
          \<and> buf ! 11 = 0b00000101 \<and> buf ! 12 = 0b11111010"
    using layout by blast
  have "set_clear_state4mcp quiet_backend True [1, 3] fresh_board =
          ((case b_write quiet_backend
                  (io fresh_board @ [Write [8, 0, 0, 0, 0, 0, 0, 0, 0, 0, 0, 5, 250, 0, 0, 0]]) of
              Some e \<Rightarrow> Inl e | None \<Rightarrow> Inr ()),
           fresh_board\<lparr>io := io fresh_board @
              [Write [8, 0, 0, 0, 0, 0, 0, 0, 0, 0, 0, 5, 250, 0, 0, 0]]\<rparr>)"
    using layout hb by blast
  then have w: "set_clear_state4mcp quiet_backend True [1, 3] fresh_board =
         (Inr (), \<lparr>has_backend = True,
                    io = [Write [8, 0, 0, 0, 0, 0, 0, 0, 0, 0, 0, 5, 250, 0, 0, 0]]\<rparr>)"
    by (simp add: quiet_backend_def fresh_board_def)
  show ?thesis
    using len hb ex w by blast
qed

subsection \<open>The 16-channel query\<close>

lemma decode_msb_first:
  "map (\<lambda>k. uint (b :: byte) AND 2 ^ k \<noteq> 0) (rev [0..<8]) =
   map (\<lambda>k. bit b (7 - k)) [0..<8]"
  by (simp only: and_exp_bit bit_uint_iff) (simp add: upt8)

lemma ascii_ask: "ASK_COMMAND @ EOC_PATTERN = ascii ''ask//''"
  by (simp add: ASK_COMMAND_def EOC_PATTERN_def ascii_def)

lemma get_all_states16_eq:
  assumes "has_backend s"
      and "b_read B (io s @ [Read None]) = Inr stale"
      and "b_write B (io s @ [Read None, Write (ascii ''ask//'')]) = None"
      and "b_read B (io s @ [Read None, Write (ascii ''ask//''), Read (Some 2)]) = Inr dat"
  shows "get_all_states16 B s =
           ((if length dat = 2
             then Inr (map (\<lambda>k. bit (dat ! 0) (7 - k)) [0..<8] @
                       map (\<lambda>k. bit (dat ! 1) (7 - k)) [0..<8])
             else Inl (InvalidResponseLength (length dat))),
            s\<lparr>io := io s @ [Read None, Write (ascii ''ask//''), Read (Some 2)]\<rparr>)"
  using assms
  by (simp add: get_all_states16_def backend_read_def backend_write_def backend_ask_def
      backend_do_def Let_def ascii_ask decode_msb_first)

text \<open>
  Claim C5.  \<open>get_all_states\<close> of the 16-channel board makes exactly three calls, in
  this order: a \<open>read()\<close> that drains stale input, a write of \<open>ask//\<close>, and a
  \<open>read(size=2)\<close>.  When that last read returns anything but two bytes (so, when fewer
  than two arrive) the result is the length-mismatch error; otherwise element \<open>k\<close> of the
  result (channel \<open>k + 1\<close>) is bit \<open>7 - k\<close> of the first byte for \<open>k < 8\<close>, and element
  \<open>8 + k\<close> (channel \<open>9 + k\<close>) is bit \<open>7 - k\<close> of the second byte.  The response
  \<open>(0b10000000, 0b00000001)\<close> decodes to channel 1 on, channels 2 to 15 off, channel 16
  on.
\<close>

theorem get_all_states16_query:
  assumes "has_backend s"
      and "b_read B (io s @ [Read None]) = Inr stale"
      and "b_write B (io s @ [Read None, Write (ascii ''ask//'')]) = None"
      and "b_read B (io s @ [Read None, Write (ascii ''ask//''), Read (Some 2)]) = Inr dat"
  shows "get_all_states16 B s =
           ((if length dat = 2
             then Inr (map (\<lambda>k. bit (dat ! 0) (7 - k)) [0..<8] @
                       map (\<lambda>k. bit (dat ! 1) (7 - k)) [0..<8])
             else Inl (InvalidResponseLength (length dat))),
            s\<lparr>io := io s @ [Read None, Write (ascii ''ask//''), Read (Some 2)]\<rparr>)
         \<and> (dat = [0b10000000, 0b00000001] \<longrightarrow>
              fst (get_all_states16 B s) =
                Inr [True, False, False, False, False, False, False, False,
                     False, False, False, False, False, False, False, True])"
proof -
  have run: "get_all_states16 B s =
           ((if length dat = 2
             then Inr (map (\<lambda>k. bit (dat ! 0) (7 - k)) [0..<8] @
                       map (\<lambda>k. bit (dat ! 1) (7 - k)) [0..<8])
             else Inl (InvalidResponseLength (length dat))),
            s\<lparr>io := io s @ [Read None, Write (ascii ''ask//''), Read (Some 2)]\<rparr>)"
    using assms by (rule get_all_states16_eq)
  have example: "dat = [0b10000000, 0b00000001] \<Longrightarrow>
              fst (get_all_states16 B s) =
                Inr [True, False, False, False, False, False, False, False,
                     False, False, False, False, False, False, False, True]"
    unfolding run by (simp add: upt8)
  show ?thesis
    using run example by blast
qed

theorem get_all_states16_query_witness:
  "has_backend fresh_board
   \<and> get_all_states16
         (quiet_backend\<lparr>b_read := (\<lambda>h. if last h = Read (Some 2) then Inr [128, 1] else Inr [])\<rparr>)
         fresh_board =
       (Inr [True, False, False, False, False, False, False, False,
             False, False, False, False, False, False, False, True],
        \<lparr>has_backend = True, io = [Read None, Write (ascii ''ask//''), Read (Some 2)]\<rparr>)"
  using get_all_states16_query
    [of fresh_board
        "quiet_backend\<lparr>b_read := (\<lambda>h. if last h = Read (Some 2) then Inr [128, 1] else Inr [])\<rparr>"
        "[]" "[128, 1]"]
  by (simp add: fresh_board_def quiet_backend_def upt8)

subsection \<open>Address checks\<close>

lemmas board_io_defs =
  backend_write_def backend_read_def backend_get_bit_mode_def backend_set_bit_mode_def
  backend_open_def backend_close_def backend_do_def backend_ask_def

lemma list_ex_range:
  "list_ex (\<lambda>state. state < 1 \<or> state > n) xs = (\<not> list_all (\<lambda>a. 1 \<le> a \<and> a \<le> (n::int)) xs)"
  by (induction xs) auto

lemma integrity_check16_iff:
  "integrity_check16 addr = (if list_all (\<lambda>a. 1 \<le> a \<and> a \<le> 16) addr then Inr () else Inl (StateOverflow 16))"
  by (simp add: integrity_check16_def max_channel16_def list_ex_range)

lemma integrity_check8_iff:
  "integrity_check8 addr = (if list_all (\<lambda>a. 1 \<le> a \<and> a \<le> 8) addr then Inr () else Inl (StateOverflow 8))"
  by (simp add: integrity_check8_def max_channel8_def list_ex_range)

lemma integrity_check4ft_iff:
  "integrity_check4ft addr = (if list_all (\<lambda>a. 1 \<le> a \<and> a \<le> 4) addr then Inr () else Inl (StateOverflow 4))"
  by (simp add: integrity_check4ft_def max_channel4ft_def list_ex_range)

lemma integrity_check4mcp_iff:
  "integrity_check4mcp addr = (if list_all (\<lambda>a. 1 \<le> a \<and> a \<le> 4) addr then Inr () else Inl (StateOverflow 4))"
  by (simp add: integrity_check4mcp_def list_ex_range)

lemma list_all_remdups [simp]: "list_all P (remdups xs) = list_all P xs"
  by (simp add: list_all_iff)

text \<open>
  Where the address check is made, it comes before any call to the backend: the state,
  with its log of calls, is returned unchanged.
\<close>

lemma get_state16_overflow:
  "has_backend s \<Longrightarrow> a < 1 \<or> a > 16 \<Longrightarrow> get_state16 B a s = (Inl (StateOverflow 16), s)"
  by (auto simp add: get_state16_def integrity_check16_iff)

lemma get_state8_overflow:
  "has_backend s \<Longrightarrow> a < 1 \<or> a > 8 \<Longrightarrow> get_state8 B a s = (Inl (StateOverflow 8), s)"
  by (auto simp add: get_state8_def integrity_check8_iff)

lemma set_state16_overflow:
  "has_backend s \<Longrightarrow> \<not> list_all (\<lambda>a. 1 \<le> a \<and> a \<le> 16) addr \<Longrightarrow>
   set_state16 B logic addr s = (Inl (StateOverflow 16), s)"
  by (simp add: set_state16_def integrity_check16_iff Let_def)

lemma set_state8_overflow:
  "has_backend s \<Longrightarrow> \<not> list_all (\<lambda>a. 1 \<le> a \<and> a \<le> 8) addr \<Longrightarrow>
   set_state8 B logic addr s = (Inl (StateOverflow 8), s)"
  by (simp add: set_state8_def integrity_check8_iff Let_def)

lemma set_state4ft_overflow:
  "\<not> list_all (\<lambda>a. 1 \<le> a \<and> a \<le> 4) addr \<Longrightarrow>
   set_state4ft B logic addr s = (Inl (StateOverflow 4), s)"
  by (simp add: set_state4ft_def integrity_check4ft_iff Let_def)

lemma set_state4mcp_overflow:
  "has_backend s \<Longrightarrow> \<not> list_all (\<lambda>a. 1 \<le> a \<and> a \<le> 4) addr \<Longrightarrow>
   set_state4mcp B logic addr s = (Inl (StateOverflow 4), s)"
  by (simp add: set_state4mcp_def integrity_check4mcp_iff Let_def)

text \<open>
  Claim C1 (the code departs from it).  \<open>get_state\<close> of the two 4-channel boards makes
  no address check.  \<open>DenkoviRelayBoard4ChFT422.get_state(5)\<close> reads the pin register and
  returns bit 4 of it; \<open>get_state(0)\<close> reads the register and then fails on the shift
  \<open>1 << -1\<close>.  \<open>DenkoviRelayBoard4ChMCP2200.get_state(5)\<close> writes the read-all report,
  reads the answer and fails with \<open>IndexError\<close>; \<open>get_state(0)\<close> does the same I/O and
  returns the state of channel 4.  None of them raises \<open>StateOverflow\<close>, and all of them
  call the backend.
\<close>

theorem get_state_4ch_unchecked:
  "get_state4ft (quiet_backend\<lparr>b_get_bit_mode := (\<lambda>_. Inr 0x10)\<rparr>) 5 fresh_board =
     (Inr True, \<lparr>has_backend = True, io = [GetBitMode]\<rparr>)
   \<and> get_state4ft quiet_backend 0 fresh_board =
     (Inl NegativeShiftCount, \<lparr>has_backend = True, io = [GetBitMode]\<rparr>)
   \<and> get_state4mcp (quiet_backend\<lparr>b_read := (\<lambda>_. Inr (replicate 16 0))\<rparr>) 5 fresh_board =
     (Inl IndexError,
      \<lparr>has_backend = True,
       io = [Write [0x80, 0, 0, 0, 0, 0, 0, 0, 0, 0, 0, 0, 0, 0, 0, 0], Read (Some 16)]\<rparr>)
   \<and> get_state4mcp (quiet_backend\<lparr>b_read := (\<lambda>_. Inr ((replicate 16 0)[10 := 8]))\<rparr>) 0 fresh_board =
     (Inr True,
      \<lparr>has_backend = True,
       io = [Write [0x80, 0, 0, 0, 0, 0, 0, 0, 0, 0, 0, 0, 0, 0, 0, 0], Read (Some 16)]\<rparr>)"
  by (simp add: get_state4ft_def get_state4mcp_def get_all_states4mcp_def send_read_all_opcode_def
      quiet_backend_def fresh_board_def board_io_defs py_lshift1_def py_getitem_def py_index_def
      py_byte_def READ_ALL_OPCODE_def IO_PORT_VAL_BMAP_IDX_def replicate16 upt4)

subsection \<open>\<open>set_clear_state\<close> with \<open>logic = False\<close>\<close>

text \<open>
  Claim C2, as stated, fails: with an address out of range the address check raises
  before \<open>set_all_states_off\<close> is reached, so nothing is written.
\<close>

theorem set_clear_state_false_counterexample:
  "set_clear_state16 quiet_backend False [17] fresh_board
     \<noteq> set_all_states_off16 quiet_backend fresh_board"
  by (simp add: set_clear_state16_def set_all_states_off16_def integrity_check16_iff
      quiet_backend_def fresh_board_def board_io_defs Let_def)

text \<open>
  Claim C2, amended.  For every board, \<open>set_clear_state(False, addresses)\<close> is the same
  computation as \<open>set_all_states_off()\<close> (same calls to the backend, same result, same
  errors) when every address lies in \<open>[1, max_channel]\<close>, the empty list included; when
  some address lies outside, it fails with \<open>StateOverflow(max_channel)\<close> and calls the
  backend not at all.
\<close>

theorem set_clear_state_false_is_all_off:
  "(list_all (\<lambda>a. 1 \<le> a \<and> a \<le> 16) addr \<longrightarrow>
      set_clear_state16 B False addr s = set_all_states_off16 B s)
   \<and> (list_all (\<lambda>a. 1 \<le> a \<and> a \<le> 8) addr \<longrightarrow>
      set_clear_state8 B False addr s = set_all_states_off8 B s)
   \<and> (list_all (\<lambda>a. 1 \<le> a \<and> a \<le> 4) addr \<longrightarrow>
      set_clear_state4ft B False addr s = set_all_states_off4ft B s
      \<and> set_clear_state4mcp B False addr s = set_all_states_off4mcp B s)
   \<and> (has_backend s \<and> \<not> list_all (\<lambda>a. 1 \<le> a \<and> a \<le> 16) addr \<longrightarrow>
      set_clear_state16 B logic addr s = (Inl (StateOverflow 16), s))
   \<and> (has_backend s \<and> \<not> list_all (\<lambda>a. 1 \<le> a \<and> a \<le> 8) addr \<longrightarrow>
      set_clear_state8 B logic addr s = (Inl (StateOverflow 8), s))
   \<and> (\<not> list_all (\<lambda>a. 1 \<le> a \<and> a \<le> 4) addr \<longrightarrow>
      set_clear_state4ft B logic addr s = (Inl (StateOverflow 4), s))
   \<and> (has_backend s \<and> \<not> list_all (\<lambda>a. 1 \<le> a \<and> a \<le> 4) addr \<longrightarrow>
      set_clear_state4mcp B logic addr s = (Inl (StateOverflow 4), s))"
  by (simp add: set_clear_state16_def set_clear_state8_def set_clear_state4ft_def
      set_clear_state4mcp_def integrity_check16_iff integrity_check8_iff integrity_check4ft_iff
      integrity_check4mcp_iff Let_def set_all_states_off16_def set_all_states_off8_def
      set_all_states_off4mcp_def)


theorem set_clear_state_false_is_all_off_witness:
  "list_all (\<lambda>a. 1 \<le> a \<and> a \<le> (4::int)) [1, 2]
   \<and> list_all (\<lambda>a. 1 \<le> a \<and> a \<le> (8::int)) [1, 2]
   \<and> list_all (\<lambda>a. 1 \<le> a \<and> a \<le> (16::int)) [1, 2]
   \<and> set_clear_state16 quiet_backend False [1, 2] fresh_board =
       set_all_states_off16 quiet_backend fresh_board
   \<and> set_clear_state8 quiet_backend False [1, 2] fresh_board =
       set_all_states_off8 quiet_backend fresh_board
   \<and> set_clear_state4ft quiet_backend False [1, 2] fresh_board =
       set_all_states_off4ft quiet_backend fresh_board
   \<and> set_clear_state4mcp quiet_backend False [1, 2] fresh_board =
       set_all_states_off4mcp quiet_backend fresh_board
   \<and> has_backend fresh_board
   \<and> \<not> list_all (\<lambda>a. 1 \<le> a \<and> a \<le> (16::int)) [17]
   \<and> set_clear_state16 quiet_backend False [17] fresh_board = (Inl (StateOverflow 16), fresh_board)
   \<and> set_clear_state8 quiet_backend False [17] fresh_board = (Inl (StateOverflow 8), fresh_board)
   \<and> set_clear_state4ft quiet_backend False [17] fresh_board = (Inl (StateOverflow 4), fresh_board)
   \<and> set_clear_state4mcp quiet_backend False [17] fresh_board = (Inl (StateOverflow 4), fresh_board)"
  using set_clear_state_false_is_all_off [of "[1, 2]" quiet_backend fresh_board False]
        set_clear_state_false_is_all_off [of "[17]" quiet_backend fresh_board False]
  by (simp add: fresh_board_def)

subsection \<open>The length of the state vector\<close>

text \<open>
  Claim C9 (the code departs from it).  \<open>DenkoviRelayBoard4ChFT422.get_all_states\<close>
  decodes all eight pins of the register, \<open>range(8)\<close>, while \<open>max_channel\<close> of the
  same class is 4: with all pins high, as after \<open>set_all_states_on\<close> has written
  \<open>0xFF\<close>, it returns eight \<open>True\<close>s, not four.
\<close>

theorem get_all_states4ft_length:
  "get_all_states4ft (quiet_backend\<lparr>b_get_bit_mode := (\<lambda>_. Inr 0xFF)\<rparr>) fresh_board =
     (Inr [True, True, True, True, True, True, True, True],
      \<lparr>has_backend = True, io = [GetBitMode]\<rparr>)
   \<and> max_channel4ft = 4"
  by (simp add: get_all_states4ft_def quiet_backend_def fresh_board_def board_io_defs upt8
      max_channel4ft_def)


lemma get_all_states_lengths:
  "fst (get_all_states16 B s) = Inr v \<Longrightarrow> int (length v) = max_channel16"
  "fst (get_all_states8 B s) = Inr v \<Longrightarrow> int (length v) = max_channel8"
  "fst (get_all_states4mcp B s) = Inr v \<Longrightarrow> int (length v) = max_channel4mcp"
  "fst (get_all_states4ft B s) = Inr v \<Longrightarrow> length v = 8"
  by (auto simp add: get_all_states16_def get_all_states8_def get_all_states4mcp_def
      get_all_states4ft_def send_read_all_opcode_def sbnd_def bnd_def board_io_defs Let_def
      max_channel16_def max_channel8_def max_channel4mcp_def
      split: if_splits sum.splits)

subsection \<open>Construction\<close>

text \<open>
  Claim C4, as stated, fails: when \<open>open\<close> succeeds and \<open>set_bit_mode\<close> raises, the
  constructor's calls to the backend are \<open>open\<close> and \<open>set_bit_mode\<close> and no other; the
  error leaves the constructor with the backend still open.
\<close>

theorem init_set_bit_mode_failure_counterexample:
  "init8 (quiet_backend\<lparr>b_set_bit_mode := (\<lambda>_. Some (NativeError ''set_bit_mode''))\<rparr>)
         None (Some ''DAE0001'') 5000 =
     (Inl (NativeError ''set_bit_mode''),
      \<lparr>has_backend = True, io = [Open None (Some ''DAE0001'') 5000, SetBitMode 0xFF 0x04]\<rparr>)"
  by (simp add: init8_def quiet_backend_def board_io_defs BIT_MASK_def
      FT_SYNCHRONOUS_BIT_BANG_MODE_def)

text \<open>
  Claim C4, amended.  In the constructors of the 8-channel board and of the 4-channel
  FT422 board, when the backend's \<open>open\<close> succeeds and \<open>set_bit_mode(0xFF, 0x04)\<close>
  raises, that exception is what the constructor raises, and the constructor has called
  \<open>open\<close> and \<open>set_bit_mode\<close> only: it does not call \<open>close\<close>.
\<close>

theorem init_set_bit_mode_failure_leaves_backend_open:
  assumes "b_open B [Open device_address serial_number timeout] = None"
      and "b_set_bit_mode B [Open device_address serial_number timeout, SetBitMode 0xFF 0x04] = Some e"
  shows "init8 B device_address serial_number timeout =
           (Inl e, \<lparr>has_backend = True,
                    io = [Open device_address serial_number timeout, SetBitMode 0xFF 0x04]\<rparr>)
         \<and> init4ft B device_address serial_number timeout =
           (Inl e, \<lparr>has_backend = True,
                    io = [Open device_address serial_number timeout, SetBitMode 0xFF 0x04]\<rparr>)
         \<and> Close \<notin> set (io (snd (init8 B device_address serial_number timeout)))
         \<and> Close \<notin> set (io (snd (init4ft B device_address serial_number timeout)))"
  using assms
  by (simp add: init8_def init4ft_def board_io_defs BIT_MASK_def
      FT_SYNCHRONOUS_BIT_BANG_MODE_def)


theorem init_set_bit_mode_failure_leaves_backend_open_witness:
  "b_open (quiet_backend\<lparr>b_set_bit_mode := (\<lambda>_. Some (NativeError ''set_bit_mode''))\<rparr>)
          [Open None (Some ''DAE0001'') 5000] = None
   \<and> b_set_bit_mode (quiet_backend\<lparr>b_set_bit_mode := (\<lambda>_. Some (NativeError ''set_bit_mode''))\<rparr>)
          [Open None (Some ''DAE0001'') 5000, SetBitMode 0xFF 0x04] =
        Some (NativeError ''set_bit_mode'')
   \<and> init4ft (quiet_backend\<lparr>b_set_bit_mode := (\<lambda>_. Some (NativeError ''set_bit_mode''))\<rparr>)
          None (Some ''DAE0001'') 5000 =
        (Inl (NativeError ''set_bit_mode''),
         \<lparr>has_backend = True, io = [Open None (Some ''DAE0001'') 5000, SetBitMode 0xFF 0x04]\<rparr>)
   \<and> Close \<notin> set (io (snd (init8
          (quiet_backend\<lparr>b_set_bit_mode := (\<lambda>_. Some (NativeError ''set_bit_mode''))\<rparr>)
          None (Some ''DAE0001'') 5000)))"
  using init_set_bit_mode_failure_leaves_backend_open
    [of "quiet_backend\<lparr>b_set_bit_mode := (\<lambda>_. Some (NativeError ''set_bit_mode''))\<rparr>"
        None "Some ''DAE0001''" 5000 "NativeError ''set_bit_mode''"]
  by (simp add: quiet_backend_def)

subsection \<open>\<open>set_state\<close>: what is read and what is written back\<close>

lemma bitmap_cong: "(\<And>i. i < n \<Longrightarrow> f i = g i) \<Longrightarrow> bitmap f n = bitmap g n"
  unfolding bitmap_def by (rule arg_cong [where f = "horner_sum of_bool 2"]) simp

lemma py_setitem_in_range:
  "1 \<le> a \<Longrightarrow> a \<le> int (length ts) \<Longrightarrow> py_setitem ts (a - 1) v = Inr (ts[nat (a - 1) := v])"
  by (simp add: py_setitem_def py_index_def)

lemma assign_each_in_range:
  assumes "list_all (\<lambda>a. 1 \<le> a \<and> a \<le> int (length ts)) addr"
  shows "assign_each ts addr v =
           Inr (map (\<lambda>i. if int i + 1 \<in> set addr then v else ts ! i) [0..<length ts])"
  using assms
proof (induction addr arbitrary: ts)
  case Nil
  then show ?case by (simp add: map_nth)
next
  case (Cons a addr)
  let ?ts = "ts[nat (a - 1) := v]"
  have a: "1 \<le> a" "a \<le> int (length ts)"
    using Cons.prems by simp_all
  have rest: "list_all (\<lambda>a. 1 \<le> a \<and> a \<le> int (length ?ts)) addr"
    using Cons.prems by simp
  have pos: "\<And>i. int i + 1 = a \<longleftrightarrow> i = nat (a - 1)"
    using a by auto
  have "assign_each ts (a # addr) v = assign_each ?ts addr v"
    using a by (simp add: py_setitem_in_range)
  also have "\<dots> = Inr (map (\<lambda>i. if int i + 1 \<in> set addr then v else ?ts ! i) [0..<length ?ts])"
    using rest by (rule Cons.IH)
  also have "map (\<lambda>i. if int i + 1 \<in> set addr then v else ?ts ! i) [0..<length ?ts] =
             map (\<lambda>i. if int i + 1 \<in> set (a # addr) then v else ts ! i) [0..<length ts]"
    by (auto simp add: pos nth_list_update)
  finally show ?case .
qed

lemma assign_each_merged:
  assumes "list_all (\<lambda>a. 1 \<le> a \<and> a \<le> int (length ts)) addr"
  shows "assign_each ts (remdups addr) v = Inr (map (merged (\<lambda>i. ts ! i) addr v) [0..<length ts])"
  using assign_each_in_range [of ts "remdups addr" v] assms
  by (simp add: merged_def)

lemma get_all_states8_eq:
  "has_backend s \<Longrightarrow> b_get_bit_mode B (io s @ [GetBitMode]) = Inr v \<Longrightarrow>
   get_all_states8 B s = (Inr (map (bit v) [0..<8]), s\<lparr>io := io s @ [GetBitMode]\<rparr>)"
  by (simp add: get_all_states8_def board_io_defs and_exp_bit)

lemma get_all_states4ft_eq:
  "b_get_bit_mode B (io s @ [GetBitMode]) = Inr v \<Longrightarrow>
   get_all_states4ft B s = (Inr (map (bit v) [0..<8]), s\<lparr>io := io s @ [GetBitMode]\<rparr>)"
  by (simp add: get_all_states4ft_def board_io_defs and_exp_bit)

lemma encode_merged8:
  assumes "list_all (\<lambda>a. 1 \<le> a \<and> a \<le> 8) addr"
  shows "bnd (assign_each (map old [0..<8]) (remdups addr) logic)
           (\<lambda>target. bnd (sum_bits target int [0..<8]) py_byte) =
         Inr (word_of_int (bitmap (merged old addr logic) 8))"
proof -
  have len: "length (map old [0..<8]) = 8" by simp
  have "assign_each (map old [0..<8]) (remdups addr) logic =
          Inr (map (merged (\<lambda>i. map old [0..<8] ! i) addr logic) [0..<8])"
    using assign_each_merged [of "map old [0..<8]" addr logic] assms by simp
  also have "map (merged (\<lambda>i. map old [0..<8] ! i) addr logic) [0..<8] =
             map (merged old addr logic) [0..<8]"
    by (simp add: merged_def)
  finally have t: "assign_each (map old [0..<8]) (remdups addr) logic =
                     Inr (map (merged old addr logic) [0..<8])" .
  have "sum_bits (map (merged old addr logic) [0..<8]) int [0..<8] =
          Inr (bitmap (\<lambda>i. map (merged old addr logic) [0..<8] ! nat (int i)) 8)"
    by (rule sum_bits_bitmap) simp
  also have "bitmap (\<lambda>i. map (merged old addr logic) [0..<8] ! nat (int i)) 8 =
             bitmap (merged old addr logic) 8"
    by (rule bitmap_cong) simp
  finally show ?thesis
    using t by (simp add: py_byte_bitmap)
qed

lemma set_state8_merge:
  assumes "has_backend s"
      and "list_all (\<lambda>a. 1 \<le> a \<and> a \<le> 8) addr"
      and "b_get_bit_mode B (io s @ [GetBitMode]) = Inr v"
  shows "set_state8 B logic addr s =
           backend_write B [word_of_int (bitmap (merged (bit v) addr logic) 8)]
             (s\<lparr>io := io s @ [GetBitMode]\<rparr>)"
proof -
  note enc = encode_merged8 [OF assms(2), of "bit v" logic]
  show ?thesis
  proof (cases rule: sum.exhaust [of "assign_each (map (bit v) [0..<8]) (remdups addr) logic"])
    case (Inl e)
    then show ?thesis using enc by simp
  next
    case (Inr target)
    then show ?thesis
      using enc assms
      by (cases rule: sum.exhaust [of "bnd (sum_bits target int [0..<8]) py_byte"])
         (simp_all add: set_state8_def Let_def integrity_check8_iff get_all_states8_eq)
  qed
qed


lemma list_all_mono4_8:
  "list_all (\<lambda>a. 1 \<le> a \<and> a \<le> (4::int)) addr \<Longrightarrow> list_all (\<lambda>a. 1 \<le> a \<and> a \<le> 8) addr"
  by (induction addr) auto

lemma set_state4ft_merge:
  assumes "list_all (\<lambda>a. 1 \<le> a \<and> a \<le> 4) addr"
      and "b_get_bit_mode B (io s @ [GetBitMode]) = Inr v"
  shows "set_state4ft B logic addr s =
           backend_write B [word_of_int (bitmap (merged (bit v) addr logic) 8)]
             (s\<lparr>io := io s @ [GetBitMode]\<rparr>)"
proof -
  note enc = encode_merged8 [OF list_all_mono4_8 [OF assms(1)], of "bit v" logic]
  show ?thesis
  proof (cases rule: sum.exhaust [of "assign_each (map (bit v) [0..<8]) (remdups addr) logic"])
    case (Inl e)
    then show ?thesis using enc by simp
  next
    case (Inr target)
    then show ?thesis
      using enc assms
      by (cases rule: sum.exhaust [of "bnd (sum_bits target int [0..<8]) py_byte"])
         (simp_all add: set_state4ft_def Let_def integrity_check4ft_iff get_all_states4ft_eq)
  qed
qed

lemma send_read_all_opcode_eq:
  "has_backend s \<Longrightarrow> send_read_all_opcode B s = backend_write B read_all_report s"
  by (simp add: send_read_all_opcode_def py_byte_def READ_ALL_OPCODE_def replicate16
      read_all_report_def)

lemma get_all_states4mcp_eq:
  assumes "has_backend s"
      and "b_write B (io s @ [Write read_all_report]) = None"
      and "b_read B (io s @ [Write read_all_report, Read (Some 16)]) = Inr data"
      and "11 \<le> length data"
  shows "get_all_states4mcp B s =
           (Inr (map (bit (data ! 10)) [0..<4]),
            s\<lparr>io := io s @ [Write read_all_report, Read (Some 16)]\<rparr>)"
  using assms
  by (simp add: get_all_states4mcp_def send_read_all_opcode_eq board_io_defs py_getitem_def
      py_index_def IO_PORT_VAL_BMAP_IDX_def and_exp_bit bit_uint_iff)

lemma set_state4mcp_merge:
  assumes "has_backend s"
      and "list_all (\<lambda>a. 1 \<le> a \<and> a \<le> 4) addr"
      and "b_write B (io s @ [Write read_all_report]) = None"
      and "b_read B (io s @ [Write read_all_report, Read (Some 16)]) = Inr data"
      and "11 \<le> length data"
  shows "set_state4mcp B logic addr s =
           backend_write B
             ((replicate 16 0)
                [0 := 0x08,
                 11 := word_of_int (bitmap (merged (bit (data ! 10)) addr logic) 4),
                 12 := NOT (word_of_int (bitmap (merged (bit (data ! 10)) addr logic) 4))])
             (s\<lparr>io := io s @ [Write read_all_report, Read (Some 16)]\<rparr>)"
proof -
  let ?old = "bit (data ! 10)"
  let ?target = "map (merged ?old addr logic) [0..<4]"
  have "assign_each (map ?old [0..<4]) (remdups addr) logic =
          Inr (map (merged (\<lambda>i. map ?old [0..<4] ! i) addr logic) [0..<4])"
    using assign_each_merged [of "map ?old [0..<4]" addr logic] assms(2) by simp
  also have "map (merged (\<lambda>i. map ?old [0..<4] ! i) addr logic) [0..<4] = ?target"
    by (simp add: merged_def)
  finally have t: "assign_each (map ?old [0..<4]) (remdups addr) logic = Inr ?target" .
  have "construct_control_bytes ?target =
          Inr ((replicate 16 0)[0 := 0x08,
                 11 := word_of_int (bitmap (\<lambda>i. ?target ! i) 4),
                 12 := NOT (word_of_int (bitmap (\<lambda>i. ?target ! i) 4))])"
    by (rule construct_control_bytes_eq) simp
  moreover have "bitmap (\<lambda>i. ?target ! i) 4 = bitmap (merged ?old addr logic) 4"
    by (rule bitmap_cong) simp
  ultimately have c: "construct_control_bytes ?target =
          Inr ((replicate 16 0)[0 := 0x08,
                 11 := word_of_int (bitmap (merged ?old addr logic) 4),
                 12 := NOT (word_of_int (bitmap (merged ?old addr logic) 4))])"
    by simp
  show ?thesis
    using assms t c
    by (simp add: set_state4mcp_def Let_def integrity_check4mcp_iff get_all_states4mcp_eq)
qed

lemma upt16: "[0..<16] = [0, 1, 2, 3, 4, 5, 6, 7, 8, 9, 10, 11, 12, 13, 14, 15 :: nat]"
  by code_simp

lemma states16_list:
  "map (\<lambda>k. bit (dat ! 0) (7 - k)) [0..<8] @ map (\<lambda>k. bit (dat ! 1) (7 - k)) [0..<8] =
   map (states16 dat) [0..<16]"
  by (simp add: upt8 upt16 states16_def)

lemma set_multiple_states16_eq:
  assumes "has_backend s"
  shows "set_multiple_states16 B (map f [0..<16]) s =
           sbnd (backend_write B
                   (ascii ''x'' @ [word_of_int (bitmap (\<lambda>i. f (7 - i)) 8),
                                   word_of_int (bitmap (\<lambda>i. f (15 - i)) 8)] @ ascii ''//'') s)
             (\<lambda>_ s. sbnd (backend_read B (Some 5) s) (\<lambda>_ s. (Inr (), s)))"
proof -
  have "sum_bits (map f [0..<16]) (\<lambda>i. 7 - int i) [0..<8] =
          Inr (bitmap (\<lambda>i. map f [0..<16] ! nat (7 - int i)) 8)"
    by (rule sum_bits_bitmap) auto
  also have "bitmap (\<lambda>i. map f [0..<16] ! nat (7 - int i)) 8 = bitmap (\<lambda>i. f (7 - i)) 8"
    by (rule bitmap_cong) (simp add: nat_diff_distrib')
  finally have b1: "sum_bits (map f [0..<16]) (\<lambda>i. 7 - int i) [0..<8] =
                      Inr (bitmap (\<lambda>i. f (7 - i)) 8)" .
  have "sum_bits (map f [0..<16]) (\<lambda>i. 15 - int i) [0..<8] =
          Inr (bitmap (\<lambda>i. map f [0..<16] ! nat (15 - int i)) 8)"
    by (rule sum_bits_bitmap) auto
  also have "bitmap (\<lambda>i. map f [0..<16] ! nat (15 - int i)) 8 = bitmap (\<lambda>i. f (15 - i)) 8"
    by (rule bitmap_cong) (simp add: nat_diff_distrib')
  finally have b2: "sum_bits (map f [0..<16]) (\<lambda>i. 15 - int i) [0..<8] =
                      Inr (bitmap (\<lambda>i. f (15 - i)) 8)" .
  show ?thesis
    using assms
    by (simp add: set_multiple_states16_def b1 b2 py_byte_bitmap
        MULTIPLE_COMMAND_def EOC_PATTERN_def)
qed

lemma set_state16_merge:
  assumes "has_backend s"
      and "list_all (\<lambda>a. 1 \<le> a \<and> a \<le> 16) addr"
      and "length (remdups addr) \<noteq> 1"
      and "b_read B (io s @ [Read None]) = Inr stale"
      and "b_write B (io s @ [Read None, Write (ascii ''ask//'')]) = None"
      and "b_read B (io s @ [Read None, Write (ascii ''ask//''), Read (Some 2)]) = Inr dat"
      and "length dat = 2"
  shows "set_state16 B logic addr s =
           sbnd (backend_write B
                   (ascii ''x'' @
                    [word_of_int (bitmap (\<lambda>i. merged (states16 dat) addr logic (7 - i)) 8),
                     word_of_int (bitmap (\<lambda>i. merged (states16 dat) addr logic (15 - i)) 8)] @
                    ascii ''//'')
                   (s\<lparr>io := io s @ [Read None, Write (ascii ''ask//''), Read (Some 2)]\<rparr>))
             (\<lambda>_ s. sbnd (backend_read B (Some 5) s) (\<lambda>_ s. (Inr (), s)))"
proof -
  let ?s3 = "s\<lparr>io := io s @ [Read None, Write (ascii ''ask//''), Read (Some 2)]\<rparr>"
  have g: "get_all_states16 B s = (Inr (map (states16 dat) [0..<16]), ?s3)"
    unfolding get_all_states16_eq [OF assms(1,4,5,6)] states16_list
    using assms(7) by simp
  have "assign_each (map (states16 dat) [0..<16]) (remdups addr) logic =
          Inr (map (merged (\<lambda>i. map (states16 dat) [0..<16] ! i) addr logic) [0..<16])"
    using assign_each_merged [of "map (states16 dat) [0..<16]" addr logic] assms(2) by simp
  also have "map (merged (\<lambda>i. map (states16 dat) [0..<16] ! i) addr logic) [0..<16] =
             map (merged (states16 dat) addr logic) [0..<16]"
    by (simp add: merged_def)
  finally have t: "assign_each (map (states16 dat) [0..<16]) (remdups addr) logic =
                     Inr (map (merged (states16 dat) addr logic) [0..<16])" .
  have hb: "has_backend ?s3"
    using assms(1) by simp
  show ?thesis
    using assms(1,2,3)
    by (simp add: set_state16_def Let_def integrity_check16_iff g t
        set_multiple_states16_eq [OF hb])
qed

lemma addr_pattern:
  assumes "1 \<le> a" and "a \<le> 16"
  shows "zfill 2 (py_str a) = [char_of (48 + nat a div 10), char_of (48 + nat a mod 10)]"
proof -
  have "a = 1 \<or> a = 2 \<or> a = 3 \<or> a = 4 \<or> a = 5 \<or> a = 6 \<or> a = 7 \<or> a = 8 \<or> a = 9
      \<or> a = 10 \<or> a = 11 \<or> a = 12 \<or> a = 13 \<or> a = 14 \<or> a = 15 \<or> a = 16"
    using assms by arith
  then show ?thesis
    by (elim disjE; hypsubst_thin; code_simp)
qed

lemma set_state16_single:
  assumes "has_backend s"
      and "1 \<le> a" and "a \<le> 16"
      and "remdups addr = [a]"
  shows "set_state16 B logic addr s =
           sbnd (backend_write B
                   (ascii [char_of (48 + nat a div 10), char_of (48 + nat a mod 10)] @
                    ascii (if logic then ''+'' else ''-'') @ ascii ''//'') s)
             (\<lambda>_ s. sbnd (backend_read B (Some 5) s) (\<lambda>_ s. (Inr (), s)))"
  using assms
  by (simp add: set_state16_def set_single_state16_def Let_def integrity_check16_iff
      addr_pattern POSITIVE_LOGIC_PATTERN_def NEGATIVE_LOGIC_PATTERN_def EOC_PATTERN_def)

text \<open>
  Claim C10, as stated, fails for the 16-channel board: with exactly one distinct
  address, \<open>set_state\<close> takes the \<open>_set_single_state\<close> branch, which reads no state and
  writes no merged word.  It sends the single-address command and drains five bytes.
\<close>

theorem set_state16_single_counterexample:
  "set_state16 quiet_backend True [3] fresh_board =
     (Inr (), \<lparr>has_backend = True, io = [Write (ascii ''03+//''), Read (Some 5)]\<rparr>)"
  using set_state16_single [of fresh_board 3 "[3]" quiet_backend True]
  by (simp add: fresh_board_def quiet_backend_def board_io_defs ascii_def)

text \<open>
  Claim C10, amended.  With every address in range, \<open>set_state(logic, addresses)\<close>
  \<^item> on the 8-channel board and on the 4-channel FT422 board reads the pin register and
    writes back one byte whose bit \<open>i\<close> (channel \<open>i + 1\<close>) is \<open>logic\<close> when the channel is
    listed and the bit read otherwise;
  \<^item> on the 4-channel HID board writes the read-all report, reads the answer, and writes
    a set/clear report whose byte 11 is merged in the same way from byte 10 of the
    answer, byte 12 being its complement;
  \<^item> on the 16-channel board, when the addresses are none or at least two distinct
    ones, queries the state (\<open>read()\<close>, \<open>ask//\<close>, \<open>read(2)\<close>) and sends \<open>x\<close>, two bytes,
    \<open>//\<close>, the two bytes holding the merged states most significant bit first;
  \<^item> on the 16-channel board, when there is exactly one distinct address, reads nothing
    and sends the two-digit address, \<open>+\<close> or \<open>-\<close>, and \<open>//\<close>, a command that names that
    channel only.
  In every case a channel that is not listed is written back as read, or not written at
  all.
\<close>

theorem set_state_merges_read_state:
  "(has_backend s \<and> list_all (\<lambda>a. 1 \<le> a \<and> a \<le> 8) addr
      \<and> b_get_bit_mode B (io s @ [GetBitMode]) = Inr v \<longrightarrow>
      (\<exists>w. (\<forall>i. bit w i \<longleftrightarrow> i < 8 \<and> merged (bit v) addr logic i)
          \<and> set_state8 B logic addr s =
              backend_write B [w] (s\<lparr>io := io s @ [GetBitMode]\<rparr>)))
   \<and> (list_all (\<lambda>a. 1 \<le> a \<and> a \<le> 4) addr
      \<and> b_get_bit_mode B (io s @ [GetBitMode]) = Inr v \<longrightarrow>
      (\<exists>w. (\<forall>i. bit w i \<longleftrightarrow> i < 8 \<and> merged (bit v) addr logic i)
          \<and> set_state4ft B logic addr s =
              backend_write B [w] (s\<lparr>io := io s @ [GetBitMode]\<rparr>)))
   \<and> (has_backend s \<and> list_all (\<lambda>a. 1 \<le> a \<and> a \<le> 4) addr
      \<and> b_write B (io s @ [Write read_all_report]) = None
      \<and> b_read B (io s @ [Write read_all_report, Read (Some 16)]) = Inr data
      \<and> 11 \<le> length data \<longrightarrow>
      (\<exists>w. (\<forall>i. bit w i \<longleftrightarrow> i < 4 \<and> merged (bit (data ! 10)) addr logic i)
          \<and> set_state4mcp B logic addr s =
              backend_write B ((replicate 16 0)[0 := 0x08, 11 := w, 12 := NOT w])
                (s\<lparr>io := io s @ [Write read_all_report, Read (Some 16)]\<rparr>)))
   \<and> (has_backend s \<and> list_all (\<lambda>a. 1 \<le> a \<and> a \<le> 16) addr
      \<and> length (remdups addr) \<noteq> 1
      \<and> b_read B (io s @ [Read None]) = Inr stale
      \<and> b_write B (io s @ [Read None, Write (ascii ''ask//'')]) = None
      \<and> b_read B (io s @ [Read None, Write (ascii ''ask//''), Read (Some 2)]) = Inr dat
      \<and> length dat = 2 \<longrightarrow>
      (\<exists>b1 b2.
          (\<forall>k < 8. bit b1 (7 - k) = merged (states16 dat) addr logic k)
          \<and> (\<forall>k < 8. bit b2 (7 - k) = merged (states16 dat) addr logic (8 + k))
          \<and> set_state16 B logic addr s =
              sbnd (backend_write B (ascii ''x'' @ [b1, b2] @ ascii ''//'')
                      (s\<lparr>io := io s @ [Read None, Write (ascii ''ask//''), Read (Some 2)]\<rparr>))
                (\<lambda>_ s. sbnd (backend_read B (Some 5) s) (\<lambda>_ s. (Inr (), s)))))
   \<and> (has_backend s \<and> 1 \<le> a \<and> a \<le> 16 \<and> remdups addr = [a] \<longrightarrow>
      set_state16 B logic addr s =
        sbnd (backend_write B
                (ascii [char_of (48 + nat a div 10), char_of (48 + nat a mod 10)] @
                 ascii (if logic then ''+'' else ''-'') @ ascii ''//'') s)
          (\<lambda>_ s. sbnd (backend_read B (Some 5) s) (\<lambda>_ s. (Inr (), s))))"
proof -
  have b8: "\<forall>i. bit (word_of_int (bitmap (merged (bit v) addr logic) 8) :: byte) i
              \<longleftrightarrow> i < 8 \<and> merged (bit v) addr logic i"
    by (simp add: bit_byte_bitmap)
  have c8: "has_backend s \<and> list_all (\<lambda>a. 1 \<le> a \<and> a \<le> 8) addr
      \<and> b_get_bit_mode B (io s @ [GetBitMode]) = Inr v \<longrightarrow>
      (\<exists>w. (\<forall>i. bit w i \<longleftrightarrow> i < 8 \<and> merged (bit v) addr logic i)
          \<and> set_state8 B logic addr s =
              backend_write B [w] (s\<lparr>io := io s @ [GetBitMode]\<rparr>))"
    using b8 set_state8_merge [of s addr B v logic] by blast
  have c4ft: "list_all (\<lambda>a. 1 \<le> a \<and> a \<le> 4) addr
      \<and> b_get_bit_mode B (io s @ [GetBitMode]) = Inr v \<longrightarrow>
      (\<exists>w. (\<forall>i. bit w i \<longleftrightarrow> i < 8 \<and> merged (bit v) addr logic i)
          \<and> set_state4ft B logic addr s =
              backend_write B [w] (s\<lparr>io := io s @ [GetBitMode]\<rparr>))"
    using b8 set_state4ft_merge [of addr B s v logic] by blast
  have b4: "\<forall>i. bit (word_of_int (bitmap (merged (bit (data ! 10)) addr logic) 4) :: byte) i
              \<longleftrightarrow> i < 4 \<and> merged (bit (data ! 10)) addr logic i"
    by (simp add: bit_byte_bitmap)
  have c4mcp: "has_backend s \<and> list_all (\<lambda>a. 1 \<le> a \<and> a \<le> 4) addr
      \<and> b_write B (io s @ [Write read_all_report]) = None
      \<and> b_read B (io s @ [Write read_all_report, Read (Some 16)]) = Inr data
      \<and> 11 \<le> length data \<longrightarrow>
      (\<exists>w. (\<forall>i. bit w i \<longleftrightarrow> i < 4 \<and> merged (bit (data ! 10)) addr logic i)
          \<and> set_state4mcp B logic addr s =
              backend_write B ((replicate 16 0)[0 := 0x08, 11 := w, 12 := NOT w])
                (s\<lparr>io := io s @ [Write read_all_report, Read (Some 16)]\<rparr>))"
    using b4 set_state4mcp_merge [of s addr B data logic] by blast
  let ?b1 = "word_of_int (bitmap (\<lambda>i. merged (states16 dat) addr logic (7 - i)) 8) :: byte"
  let ?b2 = "word_of_int (bitmap (\<lambda>i. merged (states16 dat) addr logic (15 - i)) 8) :: byte"
  have b1: "\<forall>k < 8. bit ?b1 (7 - k) = merged (states16 dat) addr logic k"
    by (auto simp add: bit_byte_bitmap)
  have b2: "\<forall>k < 8. bit ?b2 (7 - k) = merged (states16 dat) addr logic (8 + k)"
    by (auto simp add: bit_byte_bitmap)
  have c16: "has_backend s \<and> list_all (\<lambda>a. 1 \<le> a \<and> a \<le> 16) addr
      \<and> length (remdups addr) \<noteq> 1
      \<and> b_read B (io s @ [Read None]) = Inr stale
      \<and> b_write B (io s @ [Read None, Write (ascii ''ask//'')]) = None
      \<and> b_read B (io s @ [Read None, Write (ascii ''ask//''), Read (Some 2)]) = Inr dat
      \<and> length dat = 2 \<longrightarrow>
      (\<exists>b1 b2.
          (\<forall>k < 8. bit b1 (7 - k) = merged (states16 dat) addr logic k)
          \<and> (\<forall>k < 8. bit b2 (7 - k) = merged (states16 dat) addr logic (8 + k))
          \<and> set_state16 B logic addr s =
              sbnd (backend_write B (ascii ''x'' @ [b1, b2] @ ascii ''//'')
                      (s\<lparr>io := io s @ [Read None, Write (ascii ''ask//''), Read (Some 2)]\<rparr>))
                (\<lambda>_ s. sbnd (backend_read B (Some 5) s) (\<lambda>_ s. (Inr (), s))))"
    using b1 b2 set_state16_merge [of s addr B stale dat logic] by blast
  have c1: "has_backend s \<and> 1 \<le> a \<and> a \<le> 16 \<and> remdups addr = [a] \<longrightarrow>
      set_state16 B logic addr s =
        sbnd (backend_write B
                (ascii [char_of (48 + nat a div 10), char_of (48 + nat a mod 10)] @
                 ascii (if logic then ''+'' else ''-'') @ ascii ''//'') s)
          (\<lambda>_ s. sbnd (backend_read B (Some 5) s) (\<lambda>_ s. (Inr (), s)))"
    using set_state16_single [of s a addr B logic] by blast
  show ?thesis
    using c8 c4ft c4mcp c16 c1 by blast
qed

theorem set_state_merges_read_state_witness:
  "has_backend fresh_board
   \<and> list_all (\<lambda>a. 1 \<le> a \<and> a \<le> (4::int)) [1, 3]
   \<and> list_all (\<lambda>a. 1 \<le> a \<and> a \<le> (8::int)) [1, 3]
   \<and> list_all (\<lambda>a. 1 \<le> a \<and> a \<le> (16::int)) [1, 3]
   \<and> b_get_bit_mode demo_backend (io fresh_board @ [GetBitMode]) = Inr 2
   \<and> b_write demo_backend (io fresh_board @ [Write read_all_report]) = None
   \<and> b_read demo_backend (io fresh_board @ [Write read_all_report, Read (Some 16)]) =
         Inr [0, 0, 0, 0, 0, 0, 0, 0, 0, 0, 2, 0, 0, 0, 0, 0]
   \<and> 11 \<le> length [0, 0, 0, 0, 0, 0, 0, 0, 0, 0, 2, 0, 0, 0, 0, 0 :: byte]
   \<and> length (remdups [1, 3 :: int]) \<noteq> 1
   \<and> b_read demo_backend (io fresh_board @ [Read None]) = Inr []
   \<and> b_write demo_backend (io fresh_board @ [Read None, Write (ascii ''ask//'')]) = None
   \<and> b_read demo_backend (io fresh_board @ [Read None, Write (ascii ''ask//''), Read (Some 2)]) =
         Inr [128, 1]
   \<and> length [128, 1 :: byte] = 2
   \<and> (1::int) \<le> 3 \<and> (3::int) \<le> 16 \<and> remdups [3 :: int] = [3]
   \<and> (\<exists>w. (\<forall>i. bit w i \<longleftrightarrow> i < 8 \<and> merged (bit (2::int)) [1, 3] True i)
          \<and> set_state8 demo_backend True [1, 3] fresh_board =
              backend_write demo_backend [w] (fresh_board\<lparr>io := io fresh_board @ [GetBitMode]\<rparr>))
   \<and> (\<exists>w. (\<forall>i. bit w i \<longleftrightarrow> i < 8 \<and> merged (bit (2::int)) [1, 3] True i)
          \<and> set_state4ft demo_backend True [1, 3] fresh_board =
              backend_write demo_backend [w] (fresh_board\<lparr>io := io fresh_board @ [GetBitMode]\<rparr>))
   \<and> (\<exists>w. (\<forall>i. bit w i \<longleftrightarrow> i < 4 \<and>
                    merged (bit ([0, 0, 0, 0, 0, 0, 0, 0, 0, 0, 2, 0, 0, 0, 0, 0 :: byte] ! 10))
                      [1, 3] True i)
          \<and> set_state4mcp demo_backend True [1, 3] fresh_board =
              backend_write demo_backend ((replicate 16 0)[0 := 0x08, 11 := w, 12 := NOT w])
                (fresh_board\<lparr>io := io fresh_board @ [Write read_all_report, Read (Some 16)]\<rparr>))
   \<and> (\<exists>b1 b2.
          (\<forall>k < 8. bit b1 (7 - k) = merged (states16 [128, 1]) [1, 3] True k)
          \<and> (\<forall>k < 8. bit b2 (7 - k) = merged (states16 [128, 1]) [1, 3] True (8 + k))
          \<and> set_state16 demo_backend True [1, 3] fresh_board =
              sbnd (backend_write demo_backend (ascii ''x'' @ [b1, b2] @ ascii ''//'')
                      (fresh_board\<lparr>io := io fresh_board @
                         [Read None, Write (ascii ''ask//''), Read (Some 2)]\<rparr>))
                (\<lambda>_ s. sbnd (backend_read demo_backend (Some 5) s) (\<lambda>_ s. (Inr (), s))))
   \<and> set_state16 demo_backend True [3] fresh_board =
        (Inr (), \<lparr>has_backend = True, io = [Write (ascii ''03+//''), Read (Some 5)]\<rparr>)
   \<and> set_state8 demo_backend True [1, 3] fresh_board =
        (Inr (), \<lparr>has_backend = True, io = [GetBitMode, Write [7]]\<rparr>)"
proof -
  note multi =
    set_state_merges_read_state
      [of fresh_board "[1, 3]" demo_backend 2 True
          "[0, 0, 0, 0, 0, 0, 0, 0, 0, 0, 2, 0, 0, 0, 0, 0]" "[]" "[128, 1]" 3]
  note single =
    set_state_merges_read_state
      [of fresh_board "[3]" demo_backend 2 True
          "[0, 0, 0, 0, 0, 0, 0, 0, 0, 0, 2, 0, 0, 0, 0, 0]" "[]" "[128, 1]" 3]
  have hb: "has_backend fresh_board"
    by (simp add: fresh_board_def)
  have rng: "list_all (\<lambda>a. 1 \<le> a \<and> a \<le> (4::int)) [1, 3]"
    "list_all (\<lambda>a. 1 \<le> a \<and> a \<le> (8::int)) [1, 3]"
    "list_all (\<lambda>a. 1 \<le> a \<and> a \<le> (16::int)) [1, 3]"
    by simp_all
  have gbm: "b_get_bit_mode demo_backend (io fresh_board @ [GetBitMode]) = Inr 2"
    by (simp add: demo_backend_def quiet_backend_def)
  have hid: "b_write demo_backend (io fresh_board @ [Write read_all_report]) = None"
    "b_read demo_backend (io fresh_board @ [Write read_all_report, Read (Some 16)]) =
       Inr [0, 0, 0, 0, 0, 0, 0, 0, 0, 0, 2, 0, 0, 0, 0, 0]"
    "11 \<le> length [0, 0, 0, 0, 0, 0, 0, 0, 0, 0, 2, 0, 0, 0, 0, 0 :: byte]"
    by (simp_all add: demo_backend_def quiet_backend_def)
  have ask: "length (remdups [1, 3 :: int]) \<noteq> 1"
    "b_read demo_backend (io fresh_board @ [Read None]) = Inr []"
    "b_write demo_backend (io fresh_board @ [Read None, Write (ascii ''ask//'')]) = None"
    "b_read demo_backend (io fresh_board @ [Read None, Write (ascii ''ask//''), Read (Some 2)]) =
       Inr [128, 1]"
    "length [128, 1 :: byte] = 2"
    by (simp_all add: demo_backend_def quiet_backend_def)
  have one: "(1::int) \<le> 3" "(3::int) \<le> 16" "remdups [3 :: int] = [3]"
    by simp_all
  have r8: "\<exists>w. (\<forall>i. bit w i \<longleftrightarrow> i < 8 \<and> merged (bit (2::int)) [1, 3] True i)
          \<and> set_state8 demo_backend True [1, 3] fresh_board =
              backend_write demo_backend [w] (fresh_board\<lparr>io := io fresh_board @ [GetBitMode]\<rparr>)"
    using multi hb rng gbm by blast
  have r4ft: "\<exists>w. (\<forall>i. bit w i \<longleftrightarrow> i < 8 \<and> merged (bit (2::int)) [1, 3] True i)
          \<and> set_state4ft demo_backend True [1, 3] fresh_board =
              backend_write demo_backend [w] (fresh_board\<lparr>io := io fresh_board @ [GetBitMode]\<rparr>)"
    using multi rng gbm by blast
  have r4mcp: "\<exists>w. (\<forall>i. bit w i \<longleftrightarrow> i < 4 \<and>
                    merged (bit ([0, 0, 0, 0, 0, 0, 0, 0, 0, 0, 2, 0, 0, 0, 0, 0 :: byte] ! 10))
                      [1, 3] True i)
          \<and> set_state4mcp demo_backend True [1, 3] fresh_board =
              backend_write demo_backend ((replicate 16 0)[0 := 0x08, 11 := w, 12 := NOT w])
                (fresh_board\<lparr>io := io fresh_board @ [Write read_all_report, Read (Some 16)]\<rparr>)"
    using multi hb rng hid by blast
  have r16: "\<exists>b1 b2.
          (\<forall>k < 8. bit b1 (7 - k) = merged (states16 [128, 1]) [1, 3] True k)
          \<and> (\<forall>k < 8. bit b2 (7 - k) = merged (states16 [128, 1]) [1, 3] True (8 + k))
          \<and> set_state16 demo_backend True [1, 3] fresh_board =
              sbnd (backend_write demo_backend (ascii ''x'' @ [b1, b2] @ ascii ''//'')
                      (fresh_board\<lparr>io := io fresh_board @
                         [Read None, Write (ascii ''ask//''), Read (Some 2)]\<rparr>))
                (\<lambda>_ s. sbnd (backend_read demo_backend (Some 5) s) (\<lambda>_ s. (Inr (), s)))"
    using multi hb rng ask by blast
  have "set_state16 demo_backend True [3] fresh_board =
        sbnd (backend_write demo_backend
                (ascii [char_of (48 + nat 3 div 10), char_of (48 + nat 3 mod 10)] @
                 ascii (if True then ''+'' else ''-'') @ ascii ''//'') fresh_board)
          (\<lambda>_ s. sbnd (backend_read demo_backend (Some 5) s) (\<lambda>_ s. (Inr (), s)))"
    using single hb one by blast
  then have r1: "set_state16 demo_backend True [3] fresh_board =
        (Inr (), \<lparr>has_backend = True, io = [Write (ascii ''03+//''), Read (Some 5)]\<rparr>)"
    by (simp add: fresh_board_def demo_backend_def quiet_backend_def board_io_defs ascii_def)
  have e8: "set_state8 demo_backend True [1, 3] fresh_board =
        (Inr (), \<lparr>has_backend = True, io = [GetBitMode, Write [7]]\<rparr>)"
    by (simp add: set_state8_def get_all_states8_def integrity_check8_iff Let_def
        fresh_board_def demo_backend_def quiet_backend_def board_io_defs upt8
        py_setitem_def py_getitem_def py_index_def py_byte_def)
  show ?thesis
    using hb rng gbm hid ask one r8 r4ft r4mcp r16 r1 e8 by blast
qed

section \<open>Properties of the backends\<close>

subsection \<open>Serial numbers of the FTD2XX backend\<close>

lemmas native_io_defs = native_ask_def native_do_def comports_def ft_call_def

lemma lower_butlast: "lower (butlast s) = butlast (lower s)"
  by (simp add: lower_def map_butlast)

lemma port_by_serial_Some:
  "port_by_serial ps sn = Some dev \<Longrightarrow>
   \<exists>p \<in> set ps. \<exists>os_serial. port_device p = dev \<and> port_serial_number p = Some os_serial
     \<and> lower (butlast os_serial) = lower sn"
  by (induction ps) (auto simp add: lower_butlast split: option.splits if_splits)

lemma actual_serial_Some:
  "actual_serial ds sn = Some a \<Longrightarrow> \<exists>d \<in> set ds. ft_serial_number d = a \<and> lower a = lower sn"
  by (induction ds) (auto split: if_splits)

text \<open>
  Claim C7 (the code departs from it).  \<open>__get_port_by_serial_number\<close> and
  \<open>__get_serial_number_by_port\<close> compare lower-cased serial numbers, the one from the
  operating system without its last character (lemmas \<open>port_by_serial_Some\<close> and
  \<open>actual_serial_Some\<close>).  \<open>_open_by_port\<close> also drops the last character, but compares
  with \<open>==\<close>, case and all.  With a chip whose serial number is \<open>ftABCD\<close> and a port
  \<open>COM3\<close> that the operating system lists with serial number \<open>FTABCDA\<close>, the first two
  resolve the port and the serial number, and \<open>_open_by_port("COM3")\<close> finds no device.
\<close>

theorem open_by_port_case_sensitive:
  "get_serial_number_by_port demo_native ''COM3'' ftd2xx_new =
     (Inr (Some ''ftABCD''), ftd2xx_new\<lparr>ncalls := [Comports, FT_GetDeviceInfoList]\<rparr>)
   \<and> get_port_by_serial_number demo_native ''ftABCD'' ftd2xx_new =
     (Inr (Some ''COM3''), ftd2xx_new\<lparr>ncalls := [Comports]\<rparr>)
   \<and> open_by_port demo_native ''COM3'' ftd2xx_new =
     (Inl NoDeviceFound, ftd2xx_new\<lparr>ncalls := [FT_GetDeviceInfoList, Comports]\<rparr>)"
  by code_simp

subsection \<open>\<open>close\<close>\<close>

text \<open>
  Claim C3 (the code departs from it).  \<open>FTD2XXBackend.close\<close> is
  \<open>self.wrapper.ft_close()\<close>, which raises \<open>FTD2XXDeviceNotOpenException\<close> when the handle
  is \<open>None\<close>: on a backend that was never opened, and on the second of two \<open>close\<close>
  calls after a successful \<open>open\<close>.  \<open>DenkoviRelayBoard4ChFT422.close\<close> calls the
  backend's \<open>close\<close> each time it is called, so its second \<open>close\<close> reaches the backend
  again.
\<close>

theorem ftd2xx_close_raises_when_not_open:
  "ftd2xx_close quiet_native ftd2xx_new = (Inl FTD2XXDeviceNotOpened, ftd2xx_new)
   \<and> fst (ftd2xx_open demo_native None (Some ''ftABCD'') 5000 ftd2xx_new) = Inr ()
   \<and> fst (ftd2xx_close demo_native
            (snd (ftd2xx_open demo_native None (Some ''ftABCD'') 5000 ftd2xx_new))) = Inr ()
   \<and> fst (ftd2xx_close demo_native
            (snd (ftd2xx_close demo_native
               (snd (ftd2xx_open demo_native None (Some ''ftABCD'') 5000 ftd2xx_new))))) =
       Inl FTD2XXDeviceNotOpened
   \<and> io (snd (close4ft quiet_backend (snd (close4ft quiet_backend fresh_board)))) = [Close, Close]"
  by code_simp

text \<open>
  The other three backends, and the other three boards, do what the claim says: a
  \<open>close\<close> on a handle that is not open returns without a native call, and after a
  \<open>close\<close> that returned, another one changes nothing.
\<close>

lemma vcp_close_not_open: "vcp_serial s \<noteq> Some True \<Longrightarrow> vcp_close N s = (Inr (), s)"
  by (simp add: vcp_close_def)

lemma vcp_close_twice:
  "fst (vcp_close N s) = Inr () \<Longrightarrow>
   vcp_close N (snd (vcp_close N s)) = (Inr (), snd (vcp_close N s))"
  by (auto simp add: vcp_close_def native_io_defs sbnd_def Let_def split: option.splits if_splits)

lemma mcp2200_close_never_raises: "fst (mcp2200_close N s) = Inr ()"
  by (simp add: mcp2200_close_def)

lemma mcp2200_close_twice:
  "mcp2200_close N (snd (mcp2200_close N s)) = (Inr (), snd (mcp2200_close N s))"
  by (simp add: mcp2200_close_def)

lemma pyftdi_close_never_raises: "fst (pyftdi_close N s) = Inr ()"
  by (simp add: pyftdi_close_def)

lemma pyftdi_close_twice:
  "pyftdi_close N (snd (pyftdi_close N s)) = (Inr (), snd (pyftdi_close N s))"
  by (simp add: pyftdi_close_def)

lemma board_close_twice:
  "fst (close16 B s) = Inr () \<Longrightarrow> close16 B (snd (close16 B s)) = (Inr (), snd (close16 B s))"
  "fst (close8 B s) = Inr () \<Longrightarrow> close8 B (snd (close8 B s)) = (Inr (), snd (close8 B s))"
  "fst (close4mcp B s) = Inr () \<Longrightarrow> close4mcp B (snd (close4mcp B s)) = (Inr (), snd (close4mcp B s))"
  by (auto simp add: close16_def close8_def close4mcp_def board_io_defs sbnd_def Let_def
      split: option.splits if_splits)

subsection \<open>\<open>open\<close>\<close>

lemma truthy_iff: "truthy x \<longleftrightarrow> (\<exists>s. x = Some s \<and> s \<noteq> [])"
  by (cases x) (simp_all add: truthy_def)

text \<open>
  Claim C8.  In each of the four backends, \<open>open\<close> first tests
  \<open>bool(device_address) == bool(serial_number)\<close>.  When both arguments are supplied or
  neither is (supplied meaning, as in that test, neither \<open>None\<close> nor the empty string),
  it raises the \<open>ValueError\<close> "Either device_address or serial_number must be provided"
  and returns the backend object as it was: no native call has been logged, and a handle
  that was not open is still not open.
\<close>

theorem open_rejects_both_or_neither:
  assumes "truthy device_address = truthy serial_number"
  shows "ftd2xx_open N device_address serial_number timeout s1 = (Inl EitherAddressOrSerial, s1)
       \<and> vcp_open N device_address serial_number timeout s2 = (Inl EitherAddressOrSerial, s2)
       \<and> mcp2200_open N device_address serial_number timeout s3 = (Inl EitherAddressOrSerial, s3)
       \<and> pyftdi_open N device_address serial_number timeout s4 = (Inl EitherAddressOrSerial, s4)"
  using assms by (simp add: ftd2xx_open_def vcp_open_def mcp2200_open_def pyftdi_open_def)

theorem open_rejects_both_or_neither_witness:
  "truthy None = truthy None
   \<and> truthy (Some ''COM3'') = truthy (Some ''ftABCD'')
   \<and> ftd2xx_open demo_native None None 5000 ftd2xx_new = (Inl EitherAddressOrSerial, ftd2xx_new)
   \<and> vcp_open demo_native None None 5000 vcp_new = (Inl EitherAddressOrSerial, vcp_new)
   \<and> mcp2200_open demo_native None None 5000 mcp2200_new = (Inl EitherAddressOrSerial, mcp2200_new)
   \<and> pyftdi_open demo_native None None 5000 pyftdi_new = (Inl EitherAddressOrSerial, pyftdi_new)
   \<and> ftd2xx_open demo_native (Some ''COM3'') (Some ''ftABCD'') 5000 ftd2xx_new =
       (Inl EitherAddressOrSerial, ftd2xx_new)
   \<and> vcp_open demo_native (Some ''COM3'') (Some ''ftABCD'') 5000 vcp_new =
       (Inl EitherAddressOrSerial, vcp_new)
   \<and> mcp2200_open demo_native (Some ''COM3'') (Some ''ftABCD'') 5000 mcp2200_new =
       (Inl EitherAddressOrSerial, mcp2200_new)
   \<and> pyftdi_open demo_native (Some ''COM3'') (Some ''ftABCD'') 5000 pyftdi_new =
       (Inl EitherAddressOrSerial, pyftdi_new)
   \<and> ncalls ftd2xx_new = [] \<and> \<not> ftd_handle ftd2xx_new"
proof -
  have neither: "truthy None = truthy None"
    by simp
  have both: "truthy (Some ''COM3'') = truthy (Some ''ftABCD'')"
    by (simp add: truthy_def)
  note r1 = open_rejects_both_or_neither
    [OF neither, of demo_native 5000 ftd2xx_new vcp_new mcp2200_new pyftdi_new]
  note r2 = open_rejects_both_or_neither
    [OF both, of demo_native 5000 ftd2xx_new vcp_new mcp2200_new pyftdi_new]
  have fresh: "ncalls ftd2xx_new = []" "\<not> ftd_handle ftd2xx_new"
    by (simp_all add: ftd2xx_new_def)
  show ?thesis
    using neither both r1 r2 fresh by blast
qed


end
